theory Spec2Isabelle
  imports Main "HOL-Library.Sublist" "HOL-Library.AList"
begin

chapter \<open>IR memo orchestration core: a shallow embedding\<close>

text \<open>
  The development follows the Python sources under \<^verbatim>\<open>backend/agents\<close>:
  \<^verbatim>\<open>orchestrator.py\<close>, \<^verbatim>\<open>sec_edgar.py\<close>, \<^verbatim>\<open>market_data.py\<close>,
  \<^verbatim>\<open>research.py\<close> and \<^verbatim>\<open>drafting.py\<close>. Python strings are modelled as
  \<open>string\<close> over ASCII characters; a dictionary whose key order is read back by the
  code is an association list, updated with \<open>AList.update\<close> (replace in place, or
  append), which is the insertion order of a Python \<^verbatim>\<open>dict\<close>.
\<close>

section \<open>Strings\<close>

text \<open>\<^verbatim>\<open>str.upper()\<close> on ASCII text.\<close>

definition ascii_upper :: "char \<Rightarrow> char" where
  "ascii_upper c =
     (case map_of (zip ''abcdefghijklmnopqrstuvwxyz'' ''ABCDEFGHIJKLMNOPQRSTUVWXYZ'') c of
        Some u \<Rightarrow> u
      | None \<Rightarrow> c)"

definition upper :: "string \<Rightarrow> string" where
  "upper s = map ascii_upper s"

text \<open>
  The characters the regular expression class \<^verbatim>\<open>\s\<close> accepts below code point 128
  (tab, line feed, vertical tab, form feed, carriage return, the four separators
  0x1C to 0x1F, and space), and the class \<^verbatim>\<open>[A-Z]\<close>.
\<close>

definition is_space :: "char \<Rightarrow> bool" where
  "is_space c \<longleftrightarrow>
     c \<in> set [CHR 0x09, CHR 0x0A, CHR 0x0B, CHR 0x0C, CHR 0x0D,
               CHR 0x1C, CHR 0x1D, CHR 0x1E, CHR 0x1F, CHR '' '']"

definition is_AZ :: "char \<Rightarrow> bool" where
  "is_AZ c \<longleftrightarrow> c \<in> set ''ABCDEFGHIJKLMNOPQRSTUVWXYZ''"

text \<open>\<^verbatim>\<open>s.replace("www.", "")\<close>: every occurrence, scanning from the left.\<close>

function remove_www :: "string \<Rightarrow> string" where
  "remove_www [] = []"
| "remove_www (c # cs) =
     (if prefix ''www.'' (c # cs) then remove_www (drop 3 cs) else c # remove_www cs)"
  by pat_completeness auto
termination
  by (relation "measure length") auto

section \<open>Regular expressions of the ticker-edit parser\<close>

text \<open>
  The three patterns of \<^verbatim>\<open>_parse_ticker_changes\<close> are sequences of three kinds of
  atom: an alternation of literal keywords \<^verbatim>\<open>(?:A|B)\<close>, the run \<^verbatim>\<open>\s+\<close>, and the
  capturing group \<^verbatim>\<open>([A-Z]{1,5})\<close>. \<open>match_atom\<close> lists every way an atom can match
  at the head of the text, in the order a backtracking matcher tries them (alternatives
  left to right, greedy repetitions longest first), each with its captures and the rest
  of the text. The head of \<open>match_seq\<close> is therefore the match \<^verbatim>\<open>re\<close> reports at that
  position.
\<close>

datatype atom = Kw "string list" | Ws | Sym

fun match_atom :: "atom \<Rightarrow> string \<Rightarrow> (string list \<times> string) list" where
  "match_atom (Kw ks) s = map (\<lambda>k. ([], drop (length k) s)) (filter (\<lambda>k. prefix k s) ks)"
| "match_atom Ws s =
     map (\<lambda>i. ([], drop i s)) (rev [1 ..< Suc (length (takeWhile is_space s))])"
| "match_atom Sym s =
     map (\<lambda>i. ([take i s], drop i s)) (rev [1 ..< Suc (min 5 (length (takeWhile is_AZ s)))])"

fun match_seq :: "atom list \<Rightarrow> string \<Rightarrow> (string list \<times> string) list" where
  "match_seq [] s = [([], s)]"
| "match_seq (a # as) s =
     concat (map (\<lambda>(c, r). map (\<lambda>(c', r'). (c @ c', r')) (match_seq as r)) (match_atom a s))"

text \<open>
  \<^verbatim>\<open>re.finditer\<close>: the matches from left to right, none overlapping. The counter is
  the number of characters still covered by the previous match.
\<close>

fun finditer_from :: "atom list \<Rightarrow> nat \<Rightarrow> string \<Rightarrow> string list list" where
  "finditer_from p skip [] = []"
| "finditer_from p (Suc k) (c # cs) = finditer_from p k cs"
| "finditer_from p 0 (c # cs) =
     (case match_seq p (c # cs) of
        [] \<Rightarrow> finditer_from p 0 cs
      | (caps, r) # _ \<Rightarrow> caps # finditer_from p (length cs - length r) cs)"

definition finditer :: "atom list \<Rightarrow> string \<Rightarrow> string list list" where
  "finditer p s = finditer_from p 0 s"

definition replace_pattern :: "atom list" where
  "replace_pattern = [Kw [''REPLACE'', ''SWAP''], Ws, Sym, Ws, Kw [''WITH'', ''FOR''], Ws, Sym]"

definition add_pattern :: "atom list" where
  "add_pattern = [Kw [''ADD'', ''INCLUDE''], Ws, Sym]"

definition remove_pattern :: "atom list" where
  "remove_pattern = [Kw [''REMOVE'', ''DROP'', ''EXCLUDE''], Ws, Sym]"

section \<open>Ticker-edit parsing (\<^verbatim>\<open>_parse_ticker_changes\<close>)\<close>

text \<open>\<^verbatim>\<open>idx = tickers.index(old); tickers[idx] = new\<close>, for \<open>old\<close> in the list.\<close>

fun replace_first :: "'a \<Rightarrow> 'a \<Rightarrow> 'a list \<Rightarrow> 'a list" where
  "replace_first old new [] = []"
| "replace_first old new (t # ts) =
     (if t = old then new # ts else t # replace_first old new ts)"

text \<open>
  One iteration of each of the three loops, on the pair \<open>(tickers, changed)\<close>. A match
  of the replace pattern carries two groups, a match of the others one.
\<close>

fun replace_step :: "string \<Rightarrow> string list \<Rightarrow> string list \<times> bool \<Rightarrow> string list \<times> bool" where
  "replace_step target [old, new] (tickers, changed) =
     (if old \<in> set tickers \<and> old \<noteq> target then (replace_first old new tickers, True)
      else (tickers, changed))"
| "replace_step target m st = st"

fun add_step :: "string list \<Rightarrow> string list \<times> bool \<Rightarrow> string list \<times> bool" where
  "add_step [new] (tickers, changed) =
     (if new \<notin> set tickers then (tickers @ [new], True) else (tickers, changed))"
| "add_step m st = st"

fun remove_step :: "string \<Rightarrow> string list \<Rightarrow> string list \<times> bool \<Rightarrow> string list \<times> bool" where
  "remove_step target [old] (tickers, changed) =
     (if old \<in> set tickers \<and> old \<noteq> target then (remove1 old tickers, True)
      else (tickers, changed))"
| "remove_step target m st = st"

definition parse_ticker_changes :: "string \<Rightarrow> string list \<Rightarrow> string list" where
  "parse_ticker_changes instruction current_tickers =
     (if instruction = [] then current_tickers
      else
        let text = upper instruction;
            target = (if current_tickers \<noteq> [] then hd current_tickers else ''MS'');
            st1 = fold (replace_step target) (finditer replace_pattern text)
                    (current_tickers, False);
            st2 = fold add_step (finditer add_pattern text) st1;
            st3 = fold (remove_step target) (finditer remove_pattern text) st2
        in if snd st3 then fst st3 else current_tickers)"

section \<open>Provenance sources (\<^verbatim>\<open>_extract_domain\<close>, \<^verbatim>\<open>_top_sources\<close>)\<close>

record search_result =
  sr_title :: string
  sr_body :: string
  sr_href :: string

record source =
  src_url :: string
  src_domain :: string
  src_label :: string

text \<open>
  \<^verbatim>\<open>urllib.parse.urlparse(url).netloc\<close> is a parameter \<open>netloc\<close> of the model: it
  gives the network location, or \<open>None\<close> where \<^verbatim>\<open>urlparse\<close> raises, which
  \<^verbatim>\<open>_extract_domain\<close> catches.
\<close>

definition extract_domain :: "(string \<Rightarrow> string option) \<Rightarrow> string \<Rightarrow> string" where
  "extract_domain netloc u =
     (case netloc u of
        None \<Rightarrow> take 40 u
      | Some n \<Rightarrow> (let d = remove_www n in if d \<noteq> [] then d else take 40 u))"

definition source_of :: "(string \<Rightarrow> string option) \<Rightarrow> search_result \<Rightarrow> source" where
  "source_of netloc r =
     \<lparr>src_url = sr_href r,
      src_domain = extract_domain netloc (sr_href r),
      src_label = take 80 (if sr_title r \<noteq> [] then sr_title r
                           else extract_domain netloc (sr_href r))\<rparr>"

text \<open>
  The loop of \<^verbatim>\<open>_top_sources\<close> with its two variables \<open>sources\<close> and \<open>seen\<close>. An
  empty URL is the \<^verbatim>\<open>continue\<close>; the length test after each other result is the
  \<^verbatim>\<open>break\<close>.
\<close>

fun top_sources_loop ::
  "(string \<Rightarrow> string option) \<Rightarrow> nat \<Rightarrow> search_result list \<Rightarrow> source list \<Rightarrow> string list
     \<Rightarrow> source list" where
  "top_sources_loop netloc max_n [] sources seen = sources"
| "top_sources_loop netloc max_n (r # rs) sources seen =
     (if sr_href r = [] then top_sources_loop netloc max_n rs sources seen
      else
        let d = extract_domain netloc (sr_href r);
            fresh = (d \<noteq> [] \<and> d \<notin> set seen);
            sources' = (if fresh then sources @ [source_of netloc r] else sources);
            seen' = (if fresh then d # seen else seen)
        in if length sources' \<ge> max_n then sources'
           else top_sources_loop netloc max_n rs sources' seen')"

definition top_sources ::
  "(string \<Rightarrow> string option) \<Rightarrow> search_result list \<Rightarrow> nat \<Rightarrow> source list" where
  "top_sources netloc search_results max_n = top_sources_loop netloc max_n search_results [] []"

text \<open>
  The order in which values first occur in a list: each value once, at the place of
  its first occurrence. This is the reading of "in the order their domains first occur".
\<close>

fun first_occurrences :: "'a list \<Rightarrow> 'a list" where
  "first_occurrences [] = []"
| "first_occurrences (x # xs) = x # filter (\<lambda>y. y \<noteq> x) (first_occurrences xs)"

text \<open>The results that open a new domain, given the domains already seen.\<close>

fun new_domain_results ::
  "(string \<Rightarrow> string option) \<Rightarrow> search_result list \<Rightarrow> string list \<Rightarrow> search_result list" where
  "new_domain_results netloc [] seen = []"
| "new_domain_results netloc (r # rs) seen =
     (if sr_href r = [] \<or> extract_domain netloc (sr_href r) \<in> set seen
      then new_domain_results netloc rs seen
      else r # new_domain_results netloc rs (extract_domain netloc (sr_href r) # seen))"

text \<open>A stand-in for \<^verbatim>\<open>urlparse\<close> on the URLs of the examples: the text between
  \<^verbatim>\<open>https://\<close> and the next slash.\<close>

definition demo_netloc :: "string \<Rightarrow> string option" where
  "demo_netloc u =
     (if prefix ''https://'' u then Some (takeWhile (\<lambda>c. c \<noteq> CHR ''/'') (drop 8 u))
      else Some [])"

definition demo_results :: "search_result list" where
  "demo_results =
     [\<lparr>sr_title = ''A'', sr_body = '''', sr_href = ''https://www.a.com/1''\<rparr>,
      \<lparr>sr_title = ''No link'', sr_body = '''', sr_href = ''''\<rparr>,
      \<lparr>sr_title = ''A again'', sr_body = '''', sr_href = ''https://a.com/2''\<rparr>,
      \<lparr>sr_title = '''', sr_body = '''', sr_href = ''https://b.org/x''\<rparr>,
      \<lparr>sr_title = ''C'', sr_body = '''', sr_href = ''https://c.net/''\<rparr>,
      \<lparr>sr_title = ''D'', sr_body = '''', sr_href = ''https://d.io/''\<rparr>,
      \<lparr>sr_title = ''E'', sr_body = '''', sr_href = ''https://e.com/''\<rparr>,
      \<lparr>sr_title = ''F'', sr_body = '''', sr_href = ''https://f.com/''\<rparr>]"

section \<open>Transcript retrieval (\<^verbatim>\<open>sec_edgar.py\<close>)\<close>

text \<open>
  Each tier function returns a pair: the transcript text or \<^verbatim>\<open>None\<close>, and a source
  URL (a source label for the local file). Each catches its own exceptions and returns
  \<^verbatim>\<open>(None, "")\<close> instead. What the network and the file system answer is the
  environment: one outcome per tier function and argument.
\<close>

type_synonym tier_result = "string option \<times> string"

record transcript_env =
  search_efts :: "string \<Rightarrow> tier_result"
  search_submissions :: "string \<Rightarrow> tier_result"
  search_fmp :: "string \<Rightarrow> tier_result"
  search_transcript_web :: "string \<Rightarrow> string \<Rightarrow> tier_result"
  read_local_transcript :: "tier_result"

text \<open>\<^verbatim>\<open>COMPANY_CIKS\<close> of \<^verbatim>\<open>config.py\<close>.\<close>

definition COMPANY_CIKS :: "(string \<times> string) list" where
  "COMPANY_CIKS = [(''MS'', ''0000895421'')]"

text \<open>Python's truth value of an optional string (\<^verbatim>\<open>if text:\<close>, \<^verbatim>\<open>if cik:\<close>).\<close>

fun truthy :: "string option \<Rightarrow> bool" where
  "truthy None = False"
| "truthy (Some s) = (s \<noteq> [])"

fun text_of :: "string option \<Rightarrow> string" where
  "text_of None = []"
| "text_of (Some s) = s"

record transcript =
  tr_status :: string
  tr_text :: string
  tr_source :: string
  tr_source_url :: string
  tr_tier :: nat
  tr_error :: "string option"

definition found :: "string option \<Rightarrow> string \<Rightarrow> string \<Rightarrow> nat \<Rightarrow> transcript" where
  "found text label link tier =
     \<lparr>tr_status = ''success'', tr_text = text_of text, tr_source = label,
      tr_source_url = link, tr_tier = tier, tr_error = None\<rparr>"

definition all_tiers_failed :: transcript where
  "all_tiers_failed =
     \<lparr>tr_status = ''error'', tr_text = '''', tr_source = ''none'', tr_source_url = '''',
      tr_tier = 0,
      tr_error = Some ''[Earnings call transcript not available from public sources]''\<rparr>"

text \<open>
  \<^verbatim>\<open>get_transcript\<close>, read from its last tier upwards. Every function returns the
  result together with the log of the tier functions it has called, in call order; the
  log is the only addition to the source.
\<close>

definition from_tier5 :: "transcript_env \<Rightarrow> nat list \<Rightarrow> transcript \<times> nat list" where
  "from_tier5 env log =
     (let (text, source_label) = read_local_transcript env
      in if truthy text then (found text source_label '''' 5, log @ [5])
         else (all_tiers_failed, log @ [5]))"

definition from_tier4 ::
  "transcript_env \<Rightarrow> string \<Rightarrow> string \<Rightarrow> nat list \<Rightarrow> transcript \<times> nat list" where
  "from_tier4 env ticker company_name log =
     (let (text, source_url) = search_transcript_web env company_name ticker
      in if truthy text then (found text ''Web search'' source_url 4, log @ [4])
         else from_tier5 env (log @ [4]))"

definition from_tier3 ::
  "transcript_env \<Rightarrow> string \<Rightarrow> string \<Rightarrow> nat list \<Rightarrow> transcript \<times> nat list" where
  "from_tier3 env ticker company_name log =
     (let (text, source_url) = search_fmp env ticker
      in if truthy text then (found text ''Financial Modeling Prep API'' source_url 3, log @ [3])
         else from_tier4 env ticker company_name (log @ [3]))"

definition from_tier2 ::
  "transcript_env \<Rightarrow> string option \<Rightarrow> string \<Rightarrow> string \<Rightarrow> nat list \<Rightarrow> transcript \<times> nat list" where
  "from_tier2 env cik ticker company_name log =
     (if truthy cik then
        (let (text, source_url) = search_submissions env (text_of cik)
         in if truthy text then (found text ''SEC EDGAR (8-K filing)'' source_url 2, log @ [2])
            else from_tier3 env ticker company_name (log @ [2]))
      else from_tier3 env ticker company_name log)"

definition get_transcript_logged ::
  "transcript_env \<Rightarrow> string \<Rightarrow> string \<Rightarrow> transcript \<times> nat list" where
  "get_transcript_logged env ticker company_name =
     (let cik = map_of COMPANY_CIKS ticker;
          (text, source_url) = search_efts env company_name
      in if truthy text then (found text ''SEC EDGAR (EFTS)'' source_url 1, [1])
         else from_tier2 env cik ticker company_name [1])"

definition get_transcript :: "transcript_env \<Rightarrow> string \<Rightarrow> string \<Rightarrow> transcript" where
  "get_transcript env ticker company_name = fst (get_transcript_logged env ticker company_name)"

definition invoked_tiers :: "transcript_env \<Rightarrow> string \<Rightarrow> string \<Rightarrow> nat list" where
  "invoked_tiers env ticker company_name = snd (get_transcript_logged env ticker company_name)"

text \<open>
  The attempts of one resolution. Tier 2 is an attempt only for a ticker with an entry
  in \<^verbatim>\<open>COMPANY_CIKS\<close>; an attempt succeeds when its text is truthy.
\<close>

definition is_attempt :: "string \<Rightarrow> nat \<Rightarrow> bool" where
  "is_attempt ticker t \<longleftrightarrow> t \<noteq> 2 \<or> truthy (map_of COMPANY_CIKS ticker)"

definition tier_outcome :: "transcript_env \<Rightarrow> string \<Rightarrow> string \<Rightarrow> nat \<Rightarrow> tier_result" where
  "tier_outcome env ticker company_name t =
     (if t = 1 then search_efts env company_name
      else if t = 2 then search_submissions env (text_of (map_of COMPANY_CIKS ticker))
      else if t = 3 then search_fmp env ticker
      else if t = 4 then search_transcript_web env company_name ticker
      else read_local_transcript env)"

definition succeeds :: "transcript_env \<Rightarrow> string \<Rightarrow> string \<Rightarrow> nat \<Rightarrow> bool" where
  "succeeds env ticker company_name t \<longleftrightarrow>
     is_attempt ticker t \<and> truthy (fst (tier_outcome env ticker company_name t))"

text \<open>Example environments: nothing answers; only the local file answers.\<close>

definition silent_env :: transcript_env where
  "silent_env =
     \<lparr>search_efts = (\<lambda>_. (None, '''')), search_submissions = (\<lambda>_. (None, '''')),
      search_fmp = (\<lambda>_. (None, '''')), search_transcript_web = (\<lambda>_ _. (None, '''')),
      read_local_transcript = (None, '''')\<rparr>"

definition fmp_only_env :: transcript_env where
  "fmp_only_env =
     silent_env\<lparr>search_fmp := (\<lambda>t. (Some (''MS call: '' @ t), ''https://fmp.example/'' @ t))\<rparr>"

section \<open>Market data (\<^verbatim>\<open>market_data.py\<close>) and web search (\<^verbatim>\<open>research.py\<close>)\<close>

text \<open>
  Metric values are floating-point numbers; the model leaves their type \<open>'v\<close> open and
  takes the float operations of the source as parameters: the truth value of a number,
  \<^verbatim>\<open>round(x, 2)\<close>, \<^verbatim>\<open>round(x / 1e9, 1)\<close>, and the format \<^verbatim>\<open>.2f\<close>. \<open>median_2\<close> is
  \<^verbatim>\<open>float(Decimal(str(statistics.median(vals))).quantize(Decimal("0.01"), ROUND_HALF_UP))\<close>
  on a list that is not empty: the quantized median, or the message of the exception the
  expression raises (\<^verbatim>\<open>quantize\<close> raises \<^verbatim>\<open>InvalidOperation\<close> on an infinite median and
  on one of more than 26 integer digits). \<open>yf_info\<close> is what \<^verbatim>\<open>yf.Ticker(t).info\<close> answers:
  an exception message or the info dictionary. \<open>now_stamp\<close> is the clock, formatted.
\<close>

record 'v market_env =
  yf_info :: "string \<Rightarrow> string + (string \<Rightarrow> 'v option)"
  now_stamp :: string
  num_truthy :: "'v \<Rightarrow> bool"
  round_2 :: "'v \<Rightarrow> 'v"
  billions_1 :: "'v \<Rightarrow> 'v"
  median_2 :: "'v list \<Rightarrow> string + 'v"
  format_2f :: "'v \<Rightarrow> string"

type_synonym 'v metric_row = "(string \<times> 'v option) list"

text \<open>\<^verbatim>\<open>METRICS\<close>: display label, key of the info dictionary, transform.\<close>

definition METRICS :: "'v market_env \<Rightarrow> (string \<times> string \<times> ('v \<Rightarrow> 'v option) option) list" where
  "METRICS m =
     [(''Stock Price'', ''currentPrice'', None),
      (''P/E (TTM)'', ''trailingPE'', None),
      (''Forward P/E'', ''forwardPE'', None),
      (''Price/Book'', ''priceToBook'', None),
      (''Dividend Yield'', ''dividendYield'',
         Some (\<lambda>x. if num_truthy m x then Some (round_2 m x) else None)),
      (''Market Cap ($B)'', ''marketCap'',
         Some (\<lambda>x. if num_truthy m x then Some (billions_1 m x) else None)),
      (''52W High'', ''fiftyTwoWeekHigh'', None),
      (''52W Low'', ''fiftyTwoWeekLow'', None)]"

definition null_row :: "'v market_env \<Rightarrow> 'v metric_row" where
  "null_row m = map (\<lambda>(label, key, transform). (label, None)) (METRICS m)"

definition fetch_ticker :: "'v market_env \<Rightarrow> string \<Rightarrow> 'v metric_row" where
  "fetch_ticker m ticker =
     (case yf_info m ticker of
        Inl e \<Rightarrow> null_row m
      | Inr info \<Rightarrow>
          map (\<lambda>(label, key, transform).
                 (label,
                  case info key of
                    None \<Rightarrow> None
                  | Some val \<Rightarrow> (case transform of None \<Rightarrow> Some val | Some f \<Rightarrow> f val)))
              (METRICS m))"

datatype 'v median = Dash | Median 'v | NoMedian

record 'v valuation =
  vd_status :: string
  vd_tickers :: "(string \<times> 'v metric_row) list"
  vd_as_of :: string
  vd_peer_median :: "(string \<times> 'v median) list"

text \<open>\<^verbatim>\<open>data.get(pt, {}).get(label)\<close>\<close>

definition metric_of :: "(string \<times> 'v metric_row) list \<Rightarrow> string \<Rightarrow> string \<Rightarrow> 'v option" where
  "metric_of data ticker label =
     (case map_of data ticker of
        None \<Rightarrow> None
      | Some row \<Rightarrow> (case map_of row label of None \<Rightarrow> None | Some v \<Rightarrow> v))"

text \<open>
  The loop over \<^verbatim>\<open>METRICS\<close> that fills \<^verbatim>\<open>peer_median\<close>: \<open>f\<close> computes the entry of a
  label or raises, and the first exception ends the loop and the call.
\<close>

fun peer_medians ::
  "(string \<Rightarrow> string + 'v median) \<Rightarrow> string list \<Rightarrow> string + (string \<times> 'v median) list" where
  "peer_medians f [] = Inr []"
| "peer_medians f (label # labels) =
     (case f label of
        Inl e \<Rightarrow> Inl e
      | Inr x \<Rightarrow>
          (case peer_medians f labels of
             Inl e \<Rightarrow> Inl e
           | Inr rest \<Rightarrow> Inr ((label, x) # rest)))"

text \<open>
  \<^verbatim>\<open>get_valuation_data\<close>. The lookups of \<^verbatim>\<open>_fetch_ticker\<close> catch their own exceptions;
  the median and its quantization stand outside every \<^verbatim>\<open>try\<close>, so their exception is
  the exception of the call: \<open>Inl\<close> is the message of the exception raised, \<open>Inr\<close> the
  dictionary returned.
\<close>

definition get_valuation_data :: "'v market_env \<Rightarrow> string list \<Rightarrow> string + 'v valuation" where
  "get_valuation_data m tickers =
     (let results = map (fetch_ticker m) tickers;
          data = fold (\<lambda>(ticker, result) d. AList.update ticker result d)
                   (zip tickers results) [];
          peer_tickers = (if length tickers > 1 then tl tickers else [])
      in case peer_medians
                (\<lambda>label.
                   if label = ''52W High'' \<or> label = ''52W Low'' then Inr Dash
                   else
                     let vals = concat (map (\<lambda>pt. case metric_of data pt label of
                                                       None \<Rightarrow> [] | Some v \<Rightarrow> [v])
                                         peer_tickers)
                     in if vals \<noteq> [] then
                          (case median_2 m vals of Inl e \<Rightarrow> Inl e | Inr x \<Rightarrow> Inr (Median x))
                        else Inr NoMedian)
                (map fst (METRICS m)) of
           Inl e \<Rightarrow> Inl e
         | Inr peer_median \<Rightarrow>
             Inr \<lparr>vd_status = ''success'', vd_tickers = data, vd_as_of = now_stamp m,
                  vd_peer_median = peer_median\<rparr>)"

text \<open>
  \<^verbatim>\<open>_search\<close>: \<open>ddgs\<close> is what \<^verbatim>\<open>DDGS().text(query, max_results)\<close> answers: an
  exception message, or a result list, or \<^verbatim>\<open>None\<close>.
\<close>

type_synonym search_env = "string \<Rightarrow> nat \<Rightarrow> string + search_result list option"

definition search :: "search_env \<Rightarrow> string \<Rightarrow> nat \<Rightarrow> search_result list" where
  "search ddgs query max_results =
     (case ddgs query max_results of
        Inl e \<Rightarrow> []
      | Inr None \<Rightarrow> []
      | Inr (Some results) \<Rightarrow> results)"

text \<open>
  Example quotes: a finite number, given in hundredths, or \<^verbatim>\<open>float('inf')\<close>, which a
  quote service reports for a ratio whose denominator is zero. The median of the examples
  follows \<^verbatim>\<open>statistics.median\<close> (the middle of the sorted list, the mean of the two
  middle values of a list of even length) and \<^verbatim>\<open>quantize\<close> (half up to two places; an
  exception on an infinite value and on one of more than 26 integer digits).
\<close>

datatype quote = Finite int | Infinite

fun quote_le :: "quote \<Rightarrow> quote \<Rightarrow> bool" where
  "quote_le (Finite x) (Finite y) \<longleftrightarrow> x \<le> y"
| "quote_le x Infinite \<longleftrightarrow> True"
| "quote_le Infinite (Finite y) \<longleftrightarrow> False"

fun insert_quote :: "quote \<Rightarrow> quote list \<Rightarrow> quote list" where
  "insert_quote x [] = [x]"
| "insert_quote x (y # ys) = (if quote_le x y then x # y # ys else y # insert_quote x ys)"

definition sorted_quotes :: "quote list \<Rightarrow> quote list" where
  "sorted_quotes xs = foldr insert_quote xs []"

text \<open>Half of a sum of hundredths, rounded half up (away from zero) to a hundredth.\<close>

definition half_up :: "int \<Rightarrow> int" where
  "half_up s = (if s \<ge> 0 then (s + 1) div 2 else - ((1 - s) div 2))"

fun mean_quote :: "quote \<Rightarrow> quote \<Rightarrow> quote" where
  "mean_quote (Finite x) (Finite y) = Finite (half_up (x + y))"
| "mean_quote x y = Infinite"

definition median_quote :: "quote list \<Rightarrow> quote" where
  "median_quote xs =
     (let s = sorted_quotes xs; n = length s
      in if n mod 2 = 1 then s ! (n div 2) else mean_quote (s ! (n div 2 - 1)) (s ! (n div 2)))"

definition quantize_quote :: "quote \<Rightarrow> string + quote" where
  "quantize_quote q =
     (case q of
        Infinite \<Rightarrow> Inl ''[<class 'decimal.InvalidOperation'>]''
      | Finite x \<Rightarrow>
          (if \<bar>x\<bar> < 10 ^ 28 then Inr (Finite x)
           else Inl ''[<class 'decimal.InvalidOperation'>]''))"

text \<open>An example market: prices for MS (90) and GS (400), a fault for every other symbol.\<close>

definition demo_market :: "quote market_env" where
  "demo_market =
     \<lparr>yf_info = (\<lambda>t. if t = ''MS'' then
                        Inr (\<lambda>k. if k = ''currentPrice'' then Some (Finite 9000) else None)
                      else if t = ''GS'' then
                        Inr (\<lambda>k. if k = ''currentPrice'' then Some (Finite 40000) else None)
                      else Inl ''no data''),
      now_stamp = ''2026-01-01 09:30 ET'',
      num_truthy = (\<lambda>x. x \<noteq> Finite 0), round_2 = (\<lambda>x. x), billions_1 = (\<lambda>x. x),
      median_2 = (\<lambda>xs. quantize_quote (median_quote xs)), format_2f = (\<lambda>x. ''0.00'')\<rparr>"

text \<open>
  A market of four banks with their trailing price-earnings ratios (15, infinite, 12
  and 10);
  and the same market when the lookup of BAC fails.
\<close>

definition pe_market :: "quote market_env" where
  "pe_market =
     demo_market
       \<lparr>yf_info :=
          (\<lambda>t. if t = ''MS'' then Inr (\<lambda>k. if k = ''trailingPE'' then Some (Finite 1500) else None)
                else if t = ''GS'' then Inr (\<lambda>k. if k = ''trailingPE'' then Some Infinite else None)
                else if t = ''JPM'' then Inr (\<lambda>k. if k = ''trailingPE'' then Some (Finite 1200) else None)
                else if t = ''BAC'' then Inr (\<lambda>k. if k = ''trailingPE'' then Some (Finite 1000) else None)
                else Inl ''no data'')\<rparr>"

definition pe_market_bac_down :: "quote market_env" where
  "pe_market_bac_down =
     pe_market\<lparr>yf_info := (\<lambda>t. if t = ''BAC'' then Inl ''timed out'' else yf_info pe_market t)\<rparr>"

definition failing_ddgs :: search_env where
  "failing_ddgs = (\<lambda>q n. Inl ''rate limited'')"

section \<open>More string operations\<close>

definition ascii_lower :: "char \<Rightarrow> char" where
  "ascii_lower c =
     (case map_of (zip ''ABCDEFGHIJKLMNOPQRSTUVWXYZ'' ''abcdefghijklmnopqrstuvwxyz'') c of
        Some l \<Rightarrow> l
      | None \<Rightarrow> c)"

definition lower :: "string \<Rightarrow> string" where
  "lower s = map ascii_lower s"

text \<open>\<^verbatim>\<open>a in b\<close> on strings, \<^verbatim>\<open>s.strip()\<close>, \<^verbatim>\<open>sep.join(xs)\<close>.\<close>

definition contains :: "string \<Rightarrow> string \<Rightarrow> bool" where
  "contains s sub \<longleftrightarrow> sublist sub s"

definition strip :: "string \<Rightarrow> string" where
  "strip s = rev (dropWhile is_space (rev (dropWhile is_space s)))"

fun join :: "string \<Rightarrow> string list \<Rightarrow> string" where
  "join sep [] = []"
| "join sep [x] = x"
| "join sep (x # y # ys) = x @ sep @ join sep (y # ys)"

text \<open>
  Splitting at every character of a class (\<^verbatim>\<open>s.split("\n")\<close>, \<^verbatim>\<open>re.split(r'[;,]', s)\<close>):
  one more piece than separators.
\<close>

fun split_on :: "(char \<Rightarrow> bool) \<Rightarrow> string \<Rightarrow> string list" where
  "split_on P [] = [[]]"
| "split_on P (c # cs) =
     (if P c then [] # split_on P cs
      else (case split_on P cs of [] \<Rightarrow> [[c]] | w # ws \<Rightarrow> (c # w) # ws))"

text \<open>The text after the first occurrence of a marker (\<^verbatim>\<open>s[s.find(m) + len(m):]\<close>), if any.\<close>

fun text_after :: "string \<Rightarrow> string \<Rightarrow> string option" where
  "text_after m [] = (if m = [] then Some [] else None)"
| "text_after m (c # cs) =
     (if prefix m (c # cs) then Some (drop (length m) (c # cs)) else text_after m cs)"

text \<open>Decimal numerals (\<^verbatim>\<open>f"{n}"\<close>) and the grouping of \<^verbatim>\<open>f"{n:,}"\<close>.\<close>

definition digit :: "nat \<Rightarrow> char" where
  "digit d = ''0123456789'' ! d"

function show_nat :: "nat \<Rightarrow> string" where
  "show_nat n = (if n < 10 then [digit n] else show_nat (n div 10) @ [digit (n mod 10)])"
  by pat_completeness auto
termination
  by (relation "measure id") auto

function group_thousands :: "string \<Rightarrow> string" where
  "group_thousands ds =
     (if length ds \<le> 3 then ds
      else group_thousands (take (length ds - 3) ds) @ '','' @ drop (length ds - 3) ds)"
  by pat_completeness auto
termination
  by (relation "measure length") auto

definition dq :: string where
  "dq = [CHR 0x22]"

text \<open>The em dash of the source's messages, as its three UTF-8 bytes.\<close>

definition em_dash :: string where
  "em_dash = [CHR 0xE2, CHR 0x80, CHR 0x94]"

section \<open>Research leaves (\<^verbatim>\<open>research.py\<close>)\<close>

definition PEER_TICKERS :: "string list" where
  "PEER_TICKERS = [''GS'', ''JPM'', ''BAC'', ''C'', ''WFC'', ''SCHW'']"

definition ALL_TICKERS :: "string list" where
  "ALL_TICKERS = ''MS'' # PEER_TICKERS"

record bio_research =
  br_status :: string
  br_analyst_name :: string
  br_firm :: string
  br_search_results :: "search_result list"

text \<open>The inner loop of \<^verbatim>\<open>search_analyst_bio\<close> on \<open>(all_results, seen_urls)\<close>.\<close>

definition keep_new_url ::
  "search_result \<Rightarrow> search_result list \<times> string list \<Rightarrow> search_result list \<times> string list" where
  "keep_new_url r st =
     (if sr_href r \<noteq> [] \<and> sr_href r \<notin> set (snd st) then (fst st @ [r], sr_href r # snd st)
      else st)"

definition search_analyst_bio :: "search_env \<Rightarrow> string \<Rightarrow> string \<Rightarrow> bio_research" where
  "search_analyst_bio ddgs analyst_name firm =
     (let queries =
            [dq @ analyst_name @ dq @ '' '' @ dq @ firm @ dq @ '' analyst bio coverage universe'',
             dq @ analyst_name @ dq @ '' analyst banking interview commentary'',
             dq @ analyst_name @ dq @ '' career history banks analyst'',
             dq @ analyst_name @ dq @ '' BrokerCheck prior firms employment history''];
          st = fold (\<lambda>query st. fold keep_new_url (search ddgs query 8) st) queries ([], [])
      in \<lparr>br_status = ''success'', br_analyst_name = analyst_name, br_firm = firm,
          br_search_results = fst st\<rparr>)"

record peer_research =
  pr_status :: string
  pr_analyst_name :: string
  pr_peer_results :: "(string \<times> search_result list) list"
  pr_sector_results :: "search_result list"

definition search_peer_research :: "search_env \<Rightarrow> string \<Rightarrow> string list \<Rightarrow> peer_research" where
  "search_peer_research ddgs analyst_name peer_tickers =
     (let peer_results =
            fold (\<lambda>ticker d.
                    AList.update ticker
                      (search ddgs (dq @ analyst_name @ dq @ '' '' @ ticker
                                      @ '' research outlook rating'') 5) d)
                 peer_tickers [];
          sector_results = search ddgs (dq @ analyst_name @ dq @ '' large bank sector outlook'') 5
      in \<lparr>pr_status = ''success'', pr_analyst_name = analyst_name,
          pr_peer_results = peer_results, pr_sector_results = sector_results\<rparr>)"

section \<open>Records of a memo\<close>

record confidence =
  conf_level :: string
  conf_reason :: string

definition confidence_of :: "string \<Rightarrow> string \<Rightarrow> confidence" where
  "confidence_of lvl why = \<lparr>conf_level = lvl, conf_reason = why\<rparr>"

record 'v forecast_row =
  fr_label :: string
  fr_indent :: nat
  fr_analyst :: "'v option"
  fr_consensus :: "'v option"
  fr_delta :: string

record 'v forecast =
  fc_analyst_name :: string
  fc_firm :: string
  fc_date_updated :: string
  fc_is_stale :: bool
  fc_table_rows :: "'v forecast_row list"
  fc_rating :: string
  fc_price_target :: "'v option"

text \<open>
  The dictionaries stored under \<^verbatim>\<open>memo["sections"]\<close> have four shapes: a narrative
  section (keys \<^verbatim>\<open>section\<close>, \<^verbatim>\<open>content\<close>, \<^verbatim>\<open>status\<close>, \<^verbatim>\<open>sources\<close>,
  \<^verbatim>\<open>confidence\<close>), the forecast result and the valuation result with their sources and
  confidence (the valuation with \<^verbatim>\<open>ticker_order\<close> after a regeneration), and the
  error entry (keys \<^verbatim>\<open>error\<close>, \<^verbatim>\<open>sources\<close>, \<^verbatim>\<open>confidence\<close>).
\<close>

datatype 'v section_record =
    Narrative string string string "source list" confidence
  | ForecastTable "'v forecast" "source list" confidence
  | ValuationTable "'v valuation" "source list" confidence "string list option"
  | ErrorEntry string "source list" confidence

text \<open>\<^verbatim>\<open>existing_section.get(key, default)\<close>, the section itself being optional.\<close>

fun content_of :: "'v section_record option \<Rightarrow> string" where
  "content_of (Some (Narrative name content status sources conf)) = content"
| "content_of other = []"

fun sources_of :: "'v section_record option \<Rightarrow> source list" where
  "sources_of None = []"
| "sources_of (Some (Narrative name content status sources conf)) = sources"
| "sources_of (Some (ForecastTable f sources conf)) = sources"
| "sources_of (Some (ValuationTable v sources conf order)) = sources"
| "sources_of (Some (ErrorEntry e sources conf)) = sources"

fun confidence_or :: "'v section_record option \<Rightarrow> confidence \<Rightarrow> confidence" where
  "confidence_or None dflt = dflt"
| "confidence_or (Some (Narrative name content status sources conf)) dflt = conf"
| "confidence_or (Some (ForecastTable f sources conf)) dflt = conf"
| "confidence_or (Some (ValuationTable v sources conf order)) dflt = conf"
| "confidence_or (Some (ErrorEntry e sources conf)) dflt = conf"

fun tickers_of :: "'v section_record option \<Rightarrow> (string \<times> 'v metric_row) list" where
  "tickers_of (Some (ValuationTable v sources conf order)) = vd_tickers v"
| "tickers_of other = []"

fun table_rows_of :: "'v section_record option \<Rightarrow> 'v forecast_row list" where
  "table_rows_of (Some (ForecastTable f sources conf)) = fc_table_rows f"
| "table_rows_of other = []"

text \<open>
  The result of \<^verbatim>\<open>run_quality_check\<close>: the parsed JSON of the model's answer. The
  orchestrator calls \<^verbatim>\<open>.get\<close> on it, which raises when the JSON is not an object;
  \<open>QcNotAnObject\<close> carries the text of that exception.
\<close>

datatype qc_result =
    QcReport "string option" "string option"
  | QcNotAnObject string

record 'v memo =
  memo_analyst :: string
  memo_firm :: string
  memo_company :: string
  memo_date :: string
  memo_sections :: "string \<rightharpoonup> 'v section_record"
  memo_quality_check :: "qc_result option"

type_synonym 'v memo_store = "string \<rightharpoonup> 'v memo"

section \<open>Events\<close>

record step_node =
  step_id :: string
  step_label :: string
  step_children :: "(string \<times> string) list"

text \<open>
  The events of both streams, by name. A \<^verbatim>\<open>step_update\<close> keeps its step and status;
  its \<^verbatim>\<open>findings\<close> (counts and previews for display) are left out.
\<close>

datatype 'v event =
    Steps "step_node list"
  | StepUpdate string string
  | SectionEvent string string "source list" confidence
  | ForecastEvent "'v section_record"
  | ValuationEvent "'v section_record"
  | QualityCheck qc_result
  | Complete string
  | ServerError string
  | RegenStart string
  | RegenStep string string
  | RegenSection string string "source list" confidence
  | RegenForecast "'v section_record"
  | RegenValuation "'v section_record"
  | RegenError string string
  | RegenComplete string

fun is_terminal :: "'v event \<Rightarrow> bool" where
  "is_terminal (Complete memo_id) = True"
| "is_terminal (ServerError message) = True"
| "is_terminal other = False"

section \<open>Step hierarchy (\<^verbatim>\<open>_build_steps\<close>)\<close>

definition build_steps :: "string list \<Rightarrow> step_node list" where
  "build_steps selected =
     (if ''bio'' \<in> set selected then
        [\<lparr>step_id = ''bio'', step_label = ''Analyst Background'',
          step_children = [(''bio_search'', ''Searching for analyst background''),
                           (''bio_draft'', ''Drafting bio section with Claude'')]\<rparr>]
      else []) @
     (if ''forecast'' \<in> set selected then
        [\<lparr>step_id = ''forecast'', step_label = ''Analyst Forecast'',
          step_children = [(''forecast_read'', ''Reading analyst forecast from Excel''),
                           (''forecast_deltas'', ''Calculating consensus deltas'')]\<rparr>]
      else []) @
     (if ''earnings'' \<in> set selected then
        [\<lparr>step_id = ''earnings'', step_label = ''Post-Earnings Analysis'',
          step_children = [(''transcript_fetch'', ''Retrieving earnings transcript''),
                           (''transcript_extract'', ''Extracting analyst questions''),
                           (''earnings_draft'', ''Drafting post-earnings feedback'')]\<rparr>]
      else []) @
     (if ''peer'' \<in> set selected then
        [\<lparr>step_id = ''peer'', step_label = ''Peer Research'',
          step_children = [(''peer_search'', ''Searching for recent peer commentary''),
                           (''peer_draft'', ''Drafting peer research summary'')]\<rparr>]
      else []) @
     (if ''valuation'' \<in> set selected then
        [\<lparr>step_id = ''valuation'', step_label = ''Valuation Ratios'',
          step_children = [(''market_data'', ''Pulling live valuation data'')]\<rparr>]
      else []) @
     [\<lparr>step_id = ''qc'', step_label = ''Quality Check'',
       step_children = [(''quality_check'', ''Running quality check'')]\<rparr>]"

section \<open>The world of one request\<close>

text \<open>
  What a drafting prompt is assembled from: the template's context. The prompt text
  itself is not modelled; the drafting backend is a function of the section name, the
  template name, this context and the extra instruction.
\<close>

datatype draft_context =
    BioContext string string "search_result list"
  | EarningsContext string string string
  | PeerContext string string "(string \<times> search_result list) list" "search_result list"

text \<open>
  Everything outside the process, as the request finds it. A sum is an exception text
  on the left or the value on the right.
  \<^item> \<open>w_read_firm\<close>: reading the spreadsheet and looking up the analyst's firm, the first
    statements of \<^verbatim>\<open>_run_orchestrator_inner\<close>;
  \<^item> \<open>w_read_forecast\<close>: \<^verbatim>\<open>read_forecast_data\<close> under \<^verbatim>\<open>_run_step\<close>, the left
    side being the error dictionary of either;
  \<^item> \<open>w_generate\<close>, \<open>w_edit\<close>: the model call of \<^verbatim>\<open>generate_section\<close> and of
    \<^verbatim>\<open>edit_section\<close>; \<open>w_edit_table\<close>: \<^verbatim>\<open>edit_forecast_table\<close>;
  \<^item> \<open>w_quality_check\<close>: \<^verbatim>\<open>run_quality_check\<close> on the sections built so far;
  \<^item> \<open>w_peer_age\<close>: the publication date found in a peer section and its age in months
    against the clock, when a date is found and parses;
  \<^item> \<open>w_today\<close>, \<open>w_uuid\<close>: the formatted date and \<^verbatim>\<open>str(uuid.uuid4())\<close>.
\<close>

record 'v world =
  w_read_firm :: "string \<Rightarrow> string + string"
  w_ddgs :: search_env
  w_netloc :: "string \<Rightarrow> string option"
  w_transcripts :: transcript_env
  w_market :: "'v market_env"
  w_read_forecast :: "string \<Rightarrow> string + 'v forecast"
  w_generate :: "string \<Rightarrow> string \<Rightarrow> draft_context \<Rightarrow> string \<Rightarrow> string + string"
  w_edit :: "string \<Rightarrow> string \<Rightarrow> string \<Rightarrow> string + string"
  w_edit_table :: "'v forecast_row list \<Rightarrow> string \<Rightarrow> 'v forecast_row list option"
  w_quality_check :: "(string \<rightharpoonup> 'v section_record) \<Rightarrow> qc_result"
  w_peer_age :: "string \<Rightarrow> (string \<times> int) option"
  w_today :: string
  w_uuid :: string

section \<open>Drafting leaves (\<^verbatim>\<open>drafting.py\<close>)\<close>

text \<open>
  The dictionary \<^verbatim>\<open>{"section", "content", "status"}\<close> that \<^verbatim>\<open>generate_section\<close>
  and \<^verbatim>\<open>edit_section\<close> return, as a triple.
\<close>

type_synonym draft = "string \<times> string \<times> string"

definition generate_section ::
  "'v world \<Rightarrow> string \<Rightarrow> string \<Rightarrow> draft_context \<Rightarrow> string \<Rightarrow> draft" where
  "generate_section w section_name template_name ctx user_instruction =
     (case w_generate w section_name template_name ctx user_instruction of
        Inr text \<Rightarrow> (section_name, text, ''success'')
      | Inl e \<Rightarrow> (section_name, ''[Section could not be generated: '' @ e @ '']'', ''error''))"

definition edit_section :: "'v world \<Rightarrow> string \<Rightarrow> string \<Rightarrow> string \<Rightarrow> draft" where
  "edit_section w section_name current_content instruction =
     (case w_edit w section_name current_content instruction of
        Inr text \<Rightarrow> (section_name, text, ''success'')
      | Inl e \<Rightarrow> (section_name, current_content, ''error''))"

section \<open>The orchestrator (\<^verbatim>\<open>run_orchestrator\<close>)\<close>

text \<open>
  An asynchronous generator is modelled by what it has yielded and how it ended: with
  an exception (its text, on the left) or normally (its state, on the right).
  \<open>and_then\<close> is the sequential composition of generator code: an exception ends the
  whole, the events yielded before it standing.
\<close>

type_synonym ('v, 'a) gen = "'v event list \<times> (string + 'a)"

definition and_then :: "('v, 'a) gen \<Rightarrow> ('a \<Rightarrow> ('v, 'b) gen) \<Rightarrow> ('v, 'b) gen" where
  "and_then g f =
     (case snd g of
        Inl e \<Rightarrow> (fst g, Inl e)
      | Inr a \<Rightarrow> (fst g @ fst (f a), snd (f a)))"

definition put_section :: "string \<Rightarrow> 'v section_record \<Rightarrow> 'v memo \<Rightarrow> 'v memo" where
  "put_section key r memo = memo\<lparr>memo_sections := (memo_sections memo)(key \<mapsto> r)\<rparr>"

subsection \<open>Group 1: analyst background\<close>

text \<open>The career-history check on the drafted bio: the count of prior firms.\<close>

definition prior_experience_text :: "string \<Rightarrow> string" where
  "prior_experience_text bio_content =
     (case filter (\<lambda>line. contains (lower line) ''prior experience'')
             (split_on (\<lambda>c. c = CHR 0x0A) bio_content) of
        [] \<Rightarrow> []
      | line # _ \<Rightarrow> (case text_after '':**'' line of Some t \<Rightarrow> strip t | None \<Rightarrow> line))"

definition firm_count :: "string \<Rightarrow> nat" where
  "firm_count bio_content =
     (let prior_exp_text = prior_experience_text bio_content
      in if prior_exp_text = [] then 0
         else length (filter (\<lambda>s. length (strip s) > 2)
                        (split_on (\<lambda>c. c = CHR '';'' \<or> c = CHR '','') prior_exp_text)))"

definition bio_group :: "'v world \<Rightarrow> string \<Rightarrow> string \<Rightarrow> 'v memo \<Rightarrow> ('v, 'v memo) gen" where
  "bio_group w analyst_name firm memo =
     (let result = search_analyst_bio (w_ddgs w) analyst_name firm;
          search_results = br_search_results result;
          bio_sources = top_sources (w_netloc w) search_results 5;
          bio_status = (if br_status result = ''success'' then ''complete'' else ''error'');
          (name, bio_content, status) =
            generate_section w ''bio'' ''analyst_bio''
              (BioContext analyst_name firm search_results) '''';
          career_incomplete = (firm_count bio_content < 3);
          n_domains = length bio_sources;
          bio_confidence =
            (if n_domains \<ge> 3 \<and> \<not> career_incomplete then
               confidence_of ''high'' (show_nat n_domains @ '' sources found'')
             else if n_domains \<ge> 3 \<and> career_incomplete then
               confidence_of ''medium''
                 (''Career history may be incomplete '' @ em_dash
                    @ '' fewer than 3 prior firms identified'')
             else if n_domains \<ge> 1 then
               confidence_of ''medium''
                 (''Only '' @ show_nat n_domains @ '' source''
                    @ (if n_domains > 1 then ''s'' else '''') @ '' found'')
             else confidence_of ''low'' ''No web sources found'')
      in ([StepUpdate ''bio_search'' ''running'',
           StepUpdate ''bio_search'' bio_status,
           StepUpdate ''bio_draft'' ''running'',
           StepUpdate ''bio_draft'' ''complete'',
           SectionEvent ''bio'' bio_content bio_sources bio_confidence],
          Inr (put_section ''bio'' (Narrative name bio_content status bio_sources bio_confidence)
                 memo)))"

subsection \<open>Group 2: analyst forecast\<close>

definition forecast_group :: "'v world \<Rightarrow> string \<Rightarrow> string \<Rightarrow> 'v memo \<Rightarrow> ('v, 'v memo) gen" where
  "forecast_group w analyst_name firm memo =
     (case w_read_forecast w analyst_name of
        Inr result \<Rightarrow>
          (let date_updated = fc_date_updated result;
               table_rows = fc_table_rows result;
               is_stale = fc_is_stale result;
               missing_count =
                 length (filter (\<lambda>r. fr_analyst r = None \<or> fr_consensus r = None) table_rows);
               forecast_sources =
                 [\<lparr>src_url = '''', src_domain = ''analyst_key_metrics.xlsx'',
                   src_label = ''Row: '' @ analyst_name @ '', '' @ firm @ '', updated ''
                                 @ date_updated\<rparr>];
               fc_confidence =
                 (if is_stale \<and> missing_count > 0 then
                    confidence_of ''low''
                      (''Data is stale and '' @ show_nat missing_count @ '' values missing'')
                  else if is_stale then
                    confidence_of ''medium''
                      (''Data is older than 30 days (updated '' @ date_updated @ '')'')
                  else if missing_count > 2 then
                    confidence_of ''medium'' (show_nat missing_count @ '' forecast values missing'')
                  else
                    confidence_of ''high''
                      (''Data current, '' @ show_nat missing_count @ '' missing values''));
               stored = ForecastTable result forecast_sources fc_confidence
           in ([StepUpdate ''forecast_read'' ''running'',
                StepUpdate ''forecast_read'' ''complete'',
                StepUpdate ''forecast_deltas'' ''running'',
                StepUpdate ''forecast_deltas'' ''complete'',
                ForecastEvent stored],
               Inr (put_section ''forecast'' stored memo)))
      | Inl err \<Rightarrow>
          ([StepUpdate ''forecast_read'' ''running'',
            StepUpdate ''forecast_read'' ''error'',
            StepUpdate ''forecast_deltas'' ''error''],
           Inr (put_section ''forecast''
                  (ErrorEntry err [] (confidence_of ''low'' ''Forecast data unavailable''))
                  memo)))"

subsection \<open>Group 3: post-earnings analysis\<close>

definition unavailable_text :: string where
  "unavailable_text = ''[Earnings call transcript not available from public sources]''"

text \<open>\<^verbatim>\<open>s.split()\<close>: the pieces between runs of whitespace.\<close>

definition words_of :: "string \<Rightarrow> string list" where
  "words_of s = filter (\<lambda>w. w \<noteq> []) (split_on is_space s)"

text \<open>
  \<^verbatim>\<open>len(re.findall(r'^>\s*"', content, re.MULTILINE))\<close>: the positions at the start of
  a line where a \<^verbatim>\<open>>\<close> stands, followed by whitespace and a double quote. The flag
  says whether the position is the start of a line.
\<close>

fun count_questions :: "bool \<Rightarrow> string \<Rightarrow> nat" where
  "count_questions line_start [] = 0"
| "count_questions line_start (c # cs) =
     (if line_start \<and> c = CHR ''>'' \<and> prefix dq (dropWhile is_space cs) then 1 else 0)
       + count_questions (c = CHR 0x0A) cs"

definition earnings_group ::
  "'v world \<Rightarrow> string \<Rightarrow> string \<Rightarrow> string \<Rightarrow> 'v memo \<Rightarrow> ('v, 'v memo) gen" where
  "earnings_group w analyst_name firm company memo =
     (let result = get_transcript (w_transcripts w) company ''Morgan Stanley'';
          transcript_text = tr_text result;
          source_name = tr_source result;
          tier = tr_tier result;
          has_transcript = (tr_status result = ''success'' \<and> transcript_text \<noteq> [])
      in if has_transcript \<and> tier = 5 \<and> words_of analyst_name = [] then
           ([StepUpdate ''transcript_fetch'' ''running''], Inl ''list index out of range'')
         else
           (let transcript_sources =
                  (if has_transcript then
                     [\<lparr>src_url = tr_source_url result, src_domain = source_name,
                       src_label = ''Transcript from '' @ source_name @ '' (''
                         @ group_thousands (show_nat (length transcript_text))
                         @ '' characters)''\<rparr>]
                   else []);
                prompt_text =
                  (if transcript_text = [] then unavailable_text else transcript_text);
                (name, earnings_content, status) =
                  generate_section w ''earnings'' ''earnings_feedback''
                    (EarningsContext analyst_name firm (take 15000 prompt_text)) '''';
                limited_participation = (count_questions True earnings_content < 2);
                is_snippets = contains prompt_text ''[Partial transcript'';
                is_local_file = (tier = 5);
                earnings_confidence =
                  (if \<not> has_transcript then confidence_of ''low'' ''Transcript not available''
                   else if limited_participation then
                     confidence_of ''medium'' ''Limited analyst participation found in transcript''
                   else if is_local_file then
                     confidence_of ''medium''
                       ''Using bundled demo transcript (live sources unavailable)''
                   else if is_snippets then
                     confidence_of ''medium'' ''Only web search snippets available''
                   else
                     confidence_of ''high'' (''Full transcript retrieved from '' @ source_name))
            in ([StepUpdate ''transcript_fetch'' ''running'',
                 StepUpdate ''transcript_fetch'' (if has_transcript then ''complete'' else ''error''),
                 StepUpdate ''transcript_extract'' ''running'',
                 StepUpdate ''transcript_extract'' ''complete'',
                 StepUpdate ''earnings_draft'' ''running'',
                 StepUpdate ''earnings_draft'' ''complete'',
                 SectionEvent ''earnings'' earnings_content transcript_sources earnings_confidence],
                Inr (put_section ''earnings''
                       (Narrative name earnings_content status transcript_sources
                          earnings_confidence)
                       memo))))"

subsection \<open>Group 4: peer research\<close>

definition peer_group :: "'v world \<Rightarrow> string \<Rightarrow> string \<Rightarrow> 'v memo \<Rightarrow> ('v, 'v memo) gen" where
  "peer_group w analyst_name firm memo =
     (let result = search_peer_research (w_ddgs w) analyst_name PEER_TICKERS;
          all_peer_search_results =
            concat (map snd (pr_peer_results result)) @ pr_sector_results result;
          peer_sources = top_sources (w_netloc w) all_peer_search_results 5;
          n_peers_with_results = length (filter (\<lambda>(t, r). r \<noteq> []) (pr_peer_results result));
          (name, peer_content, status) =
            generate_section w ''peer'' ''peer_research''
              (PeerContext analyst_name firm (pr_peer_results result) (pr_sector_results result))
              '''';
          peer_stale_note =
            (case w_peer_age w peer_content of
               Some (peer_date_str, months_old) \<Rightarrow>
                 (if months_old > 6 then
                    Some (''Most recent commentary found is from '' @ peer_date_str @ '' ''
                            @ em_dash @ '' may not reflect current views'')
                  else if months_old \<ge> 3 then
                    Some (''Commentary is '' @ show_nat (nat months_old) @ '' months old'')
                  else None)
             | None \<Rightarrow>
                 (if peer_content \<noteq> [] \<and> n_peers_with_results \<ge> 1 then
                    Some ''Publication date could not be verified''
                  else None));
          n_domains = length peer_sources;
          peer_confidence =
            (case peer_stale_note of
               Some note \<Rightarrow> confidence_of ''medium'' note
             | None \<Rightarrow>
                 (if n_peers_with_results \<ge> 3 \<and> n_domains \<ge> 2 then
                    confidence_of ''high''
                      (''Recent commentary found from '' @ show_nat n_peers_with_results
                         @ '' peers'')
                  else if n_peers_with_results \<ge> 1 then
                    confidence_of ''medium''
                      (''Limited results '' @ em_dash @ '' '' @ show_nat n_peers_with_results
                         @ '' peer'' @ (if n_peers_with_results > 1 then ''s'' else '''')
                         @ '' with data'')
                  else confidence_of ''low'' ''No peer commentary found''))
      in ([StepUpdate ''peer_search'' ''running'',
           StepUpdate ''peer_search''
             (if pr_status result = ''success'' then ''complete'' else ''error''),
           StepUpdate ''peer_draft'' ''running'',
           StepUpdate ''peer_draft'' ''complete'',
           SectionEvent ''peer'' peer_content peer_sources peer_confidence],
          Inr (put_section ''peer''
                 (Narrative name peer_content status peer_sources peer_confidence) memo)))"

subsection \<open>Group 5: valuation ratios\<close>

text \<open>\<^verbatim>\<open>d.get("Stock Price") is None\<close> on a metric row.\<close>

definition price_missing :: "'v metric_row \<Rightarrow> bool" where
  "price_missing row \<longleftrightarrow>
     (case map_of row ''Stock Price'' of None \<Rightarrow> True | Some None \<Rightarrow> True | Some (Some p) \<Rightarrow> False)"

text \<open>The price of a ticker as \<^verbatim>\<open>f"${price:.2f}" if price else "N/A"\<close>.\<close>

definition price_text :: "'v market_env \<Rightarrow> (string \<times> 'v metric_row) list \<Rightarrow> string \<Rightarrow> string" where
  "price_text m tickers_data ticker =
     (case metric_of tickers_data ticker ''Stock Price'' of
        None \<Rightarrow> ''N/A''
      | Some p \<Rightarrow> (if num_truthy m p then ''$'' @ format_2f m p else ''N/A''))"

definition yahoo_source :: "string \<Rightarrow> string \<Rightarrow> string \<Rightarrow> source" where
  "yahoo_source ticker price as_of =
     \<lparr>src_url = '''', src_domain = ''Yahoo Finance API'',
      src_label = ''Real-time data '' @ em_dash @ '' '' @ ticker @ '': '' @ price
                    @ '' (as of '' @ as_of @ '')''\<rparr>"

text \<open>
  \<^verbatim>\<open>_run_step\<close> turns an exception of the leaf into the dictionary
  \<^verbatim>\<open>{"status": "error", "error": str(e)}\<close>: \<open>Inl e\<close> below.
\<close>

definition valuation_group :: "'v world \<Rightarrow> 'v memo \<Rightarrow> ('v, 'v memo) gen" where
  "valuation_group w memo =
     (case get_valuation_data (w_market w) ALL_TICKERS of
        Inr result \<Rightarrow>
          (if vd_status result = ''success'' then
             (let tickers_data = vd_tickers result;
                  n_tickers = length tickers_data;
                  as_of = vd_as_of result;
                  n_failures = length (filter (\<lambda>(t, d). price_missing d) tickers_data);
                  valuation_sources =
                    [yahoo_source ''MS'' (price_text (w_market w) tickers_data ''MS'') as_of];
                  val_confidence =
                    (if n_failures = 0 then
                       confidence_of ''high'' (''All '' @ show_nat n_tickers @ '' tickers retrieved'')
                     else if n_failures \<le> 2 then
                       confidence_of ''medium''
                         (show_nat n_failures @ '' of '' @ show_nat n_tickers @ '' tickers failed'')
                     else
                       confidence_of ''low''
                         (''Major data gaps '' @ em_dash @ '' '' @ show_nat n_failures
                            @ '' tickers failed''));
                  stored = ValuationTable result valuation_sources val_confidence None
              in ([StepUpdate ''market_data'' ''running'',
                   StepUpdate ''market_data'' ''complete'',
                   ValuationEvent stored],
                  Inr (put_section ''valuation'' stored memo)))
           else
             ([StepUpdate ''market_data'' ''running'',
               StepUpdate ''market_data'' ''error''],
              Inr (put_section ''valuation''
                     (ErrorEntry ''Failed'' [] (confidence_of ''low'' ''Valuation data unavailable''))
                     memo)))
      | Inl e \<Rightarrow>
          ([StepUpdate ''market_data'' ''running'',
            StepUpdate ''market_data'' ''error''],
           Inr (put_section ''valuation''
                  (ErrorEntry e [] (confidence_of ''low'' ''Valuation data unavailable''))
                  memo)))"

subsection \<open>Group 6: quality check, and the whole run\<close>

definition qc_group :: "'v world \<Rightarrow> 'v memo \<Rightarrow> ('v, 'v memo) gen" where
  "qc_group w memo =
     (case w_quality_check w (memo_sections memo) of
        QcNotAnObject e \<Rightarrow>
          ([StepUpdate ''quality_check'' ''running'', QualityCheck (QcNotAnObject e)], Inl e)
      | QcReport overall summary \<Rightarrow>
          ([StepUpdate ''quality_check'' ''running'',
            QualityCheck (QcReport overall summary),
            StepUpdate ''quality_check'' ''complete''],
           Inr (memo\<lparr>memo_quality_check := Some (QcReport overall summary)\<rparr>)))"

definition when_selected ::
  "string \<Rightarrow> string list \<Rightarrow> ('v memo \<Rightarrow> ('v, 'v memo) gen) \<Rightarrow> 'v memo \<Rightarrow> ('v, 'v memo) gen" where
  "when_selected key selected grp memo =
     (if key \<in> set selected then grp memo else ([], Inr memo))"

definition run_orchestrator_inner ::
  "'v world \<Rightarrow> string \<Rightarrow> string \<Rightarrow> string list \<Rightarrow> 'v memo_store \<Rightarrow> ('v, 'v memo_store) gen" where
  "run_orchestrator_inner w analyst_name company selected memo_store =
     (case w_read_firm w analyst_name of
        Inl e \<Rightarrow> ([], Inl e)
      | Inr firm \<Rightarrow>
          and_then
            ([Steps (build_steps selected)],
             Inr \<lparr>memo_analyst = analyst_name, memo_firm = firm, memo_company = company,
                  memo_date = w_today w, memo_sections = Map.empty,
                  memo_quality_check = None\<rparr>)
            (\<lambda>memo. and_then (when_selected ''bio'' selected (bio_group w analyst_name firm) memo)
            (\<lambda>memo. and_then
               (when_selected ''forecast'' selected (forecast_group w analyst_name firm) memo)
            (\<lambda>memo. and_then
               (when_selected ''earnings'' selected
                  (earnings_group w analyst_name firm company) memo)
            (\<lambda>memo. and_then (when_selected ''peer'' selected (peer_group w analyst_name firm) memo)
            (\<lambda>memo. and_then (when_selected ''valuation'' selected (valuation_group w) memo)
            (\<lambda>memo. and_then (qc_group w memo)
            (\<lambda>memo. let memo_id = take 8 (w_uuid w)
                     in ([Complete memo_id], Inr (memo_store(memo_id \<mapsto> memo)))))))))))"

text \<open>
  The guard of \<^verbatim>\<open>run_orchestrator\<close>: the events of the inner generator, and one
  \<^verbatim>\<open>server_error\<close> after them if it raised. The store is assigned only by the last
  statement before \<^verbatim>\<open>complete\<close>, so a run that raised leaves it as it was.
\<close>

definition run_orchestrator ::
  "'v world \<Rightarrow> string \<Rightarrow> string \<Rightarrow> string list \<Rightarrow> 'v memo_store \<Rightarrow> 'v event list \<times> 'v memo_store" where
  "run_orchestrator w analyst_name company selected memo_store =
     (case run_orchestrator_inner w analyst_name company selected memo_store of
        (events, Inl e) \<Rightarrow> (events @ [ServerError (''Orchestrator error: '' @ e)], memo_store)
      | (events, Inr stored) \<Rightarrow> (events, stored))"

section \<open>Per-section regeneration (\<^verbatim>\<open>run_regeneration\<close>)\<close>

text \<open>
  The leaves a regeneration calls, logged in call order (the log is an addition to the
  source, as for the transcript tiers).
\<close>

datatype leaf_call =
    CallEditSection string
  | CallEditTable
  | CallSearchBio
  | CallSearchPeers
  | CallReadForecast
  | CallTranscript
  | CallGenerate string
  | CallValuation "string list"

text \<open>
  A branch of \<^verbatim>\<open>_run_regeneration_inner\<close> gives the events it yields, the store as it
  leaves it, the leaves it has called, and whether it runs on to the final
  \<^verbatim>\<open>regen_complete\<close> (\<open>True\<close>) or returns early after a \<^verbatim>\<open>regen_error\<close>.
\<close>

type_synonym 'v branch = "'v event list \<times> 'v memo_store \<times> leaf_call list \<times> bool"

text \<open>\<^verbatim>\<open>memo["sections"][key] = record\<close>, the memo being the one stored under \<open>memo_id\<close>.\<close>

definition store_section ::
  "'v memo_store \<Rightarrow> string \<Rightarrow> 'v memo \<Rightarrow> string \<Rightarrow> 'v section_record \<Rightarrow> 'v memo_store" where
  "store_section memo_store memo_id memo key r = memo_store(memo_id \<mapsto> put_section key r memo)"

subsection \<open>Draft-only mode\<close>

definition draft_only_narrative ::
  "'v world \<Rightarrow> string \<Rightarrow> string \<Rightarrow> string \<Rightarrow> 'v memo_store \<Rightarrow> string \<Rightarrow> 'v memo \<Rightarrow> 'v branch" where
  "draft_only_narrative w section_key instruction current_content memo_store memo_id memo =
     (let existing_section = memo_sections memo section_key;
          content_to_edit =
            (if current_content \<noteq> [] then current_content else content_of existing_section)
      in if content_to_edit = [] then
           ([RegenError section_key ''No existing content to edit''], memo_store, [], False)
         else
           (let (name, content, status) = edit_section w section_key content_to_edit instruction;
                sources = sources_of existing_section;
                conf = confidence_or existing_section (confidence_of ''medium'' ''Edited section'')
            in ([RegenStep section_key ''Applying changes with Claude'',
                 RegenSection section_key content sources conf],
                store_section memo_store memo_id memo section_key
                  (Narrative name content status sources conf),
                [CallEditSection section_key], True)))"

definition draft_only_forecast ::
  "'v world \<Rightarrow> string \<Rightarrow> string \<Rightarrow> 'v memo_store \<Rightarrow> string \<Rightarrow> 'v memo \<Rightarrow> 'v branch" where
  "draft_only_forecast w section_key instruction memo_store memo_id memo =
     (case memo_sections memo section_key of
        Some (ForecastTable f sources conf) \<Rightarrow>
          (let existing_rows = fc_table_rows f
           in if existing_rows = [] then
                ([RegenError section_key ''No existing forecast data to edit''], memo_store, [],
                 False)
              else
                (let modified_rows =
                       (if instruction \<noteq> [] then w_edit_table w existing_rows instruction
                        else None);
                     result =
                       (case modified_rows of
                          None \<Rightarrow> ForecastTable f sources conf
                        | Some rows \<Rightarrow>
                            (if rows \<noteq> [] then ForecastTable (f\<lparr>fc_table_rows := rows\<rparr>) sources conf
                             else ForecastTable f sources conf))
                 in ((if instruction \<noteq> [] then
                        [RegenStep section_key ''Applying changes to forecast table'']
                      else []) @ [RegenForecast result],
                     store_section memo_store memo_id memo ''forecast'' result,
                     (if instruction \<noteq> [] then [CallEditTable] else []), True)))
      | other \<Rightarrow>
          ([RegenError section_key ''No existing forecast data to edit''], memo_store, [], False))"

text \<open>
  The valuation record written after a fresh pull, in both modes. The target is
  \<^verbatim>\<open>new_tickers[0]\<close>; the list is never empty here, since the parser keeps a list that
  is not empty so.
\<close>

definition refreshed_valuation :: "'v world \<Rightarrow> 'v valuation \<Rightarrow> string list \<Rightarrow> 'v section_record" where
  "refreshed_valuation w result new_tickers =
     (let tickers_data = vd_tickers result;
          target = hd new_tickers;
          valuation_sources =
            [yahoo_source target (price_text (w_market w) tickers_data target) (vd_as_of result)];
          n_failures = length (filter (\<lambda>(t, d). price_missing d) tickers_data);
          val_confidence =
            (if n_failures = 0 then
               confidence_of ''high''
                 (''All '' @ show_nat (length tickers_data) @ '' tickers retrieved'')
             else confidence_of ''medium'' (show_nat n_failures @ '' tickers failed''))
      in ValuationTable result valuation_sources val_confidence (Some new_tickers))"

text \<open>
  \<^verbatim>\<open>list(existing_section.get("tickers", {}).keys()) if existing_section.get("tickers")
  else list(ALL_TICKERS)\<close>
\<close>

definition existing_tickers_of :: "'v section_record option \<Rightarrow> string list" where
  "existing_tickers_of existing_section =
     (if tickers_of existing_section \<noteq> [] then map fst (tickers_of existing_section)
      else ALL_TICKERS)"

definition draft_only_valuation ::
  "'v world \<Rightarrow> string \<Rightarrow> string \<Rightarrow> 'v memo_store \<Rightarrow> string \<Rightarrow> 'v memo \<Rightarrow> 'v branch" where
  "draft_only_valuation w section_key instruction memo_store memo_id memo =
     (let existing_section = memo_sections memo section_key;
          existing_tickers = existing_tickers_of existing_section;
          new_tickers = parse_ticker_changes instruction existing_tickers
      in if new_tickers \<noteq> existing_tickers then
           (let step = RegenStep section_key
                         (''Pulling data for updated tickers: '' @ join '', '' new_tickers)
            in case get_valuation_data (w_market w) new_tickers of
                 Inr result \<Rightarrow>
                   (if vd_status result = ''success'' then
                      ([step, RegenValuation (refreshed_valuation w result new_tickers)],
                       store_section memo_store memo_id memo ''valuation''
                         (refreshed_valuation w result new_tickers),
                       [CallValuation new_tickers], True)
                    else
                      ([step, RegenError section_key ''Failed to pull valuation data''],
                       memo_store, [CallValuation new_tickers], False))
               | Inl e \<Rightarrow>
                   ([step, RegenError section_key ''Failed to pull valuation data''], memo_store,
                    [CallValuation new_tickers], False))
         else
           (case existing_section of
              Some existing \<Rightarrow>
                (if tickers_of existing_section \<noteq> [] then
                   ([RegenValuation existing], memo_store, [], True)
                 else
                   ([RegenError section_key ''No existing valuation data''], memo_store, [],
                    False))
            | None \<Rightarrow>
                ([RegenError section_key ''No existing valuation data''], memo_store, [], False)))"

definition draft_only ::
  "'v world \<Rightarrow> string \<Rightarrow> string \<Rightarrow> string \<Rightarrow> 'v memo_store \<Rightarrow> string \<Rightarrow> 'v memo \<Rightarrow> 'v branch" where
  "draft_only w section_key instruction current_content memo_store memo_id memo =
     (if section_key \<in> set [''bio'', ''earnings'', ''peer''] then
        draft_only_narrative w section_key instruction current_content memo_store memo_id memo
      else if section_key = ''forecast'' then
        draft_only_forecast w section_key instruction memo_store memo_id memo
      else if section_key = ''valuation'' then
        draft_only_valuation w section_key instruction memo_store memo_id memo
      else ([RegenError section_key (''Unknown section: '' @ section_key)], memo_store, [], False))"

subsection \<open>Re-search mode\<close>

definition re_search_bio ::
  "'v world \<Rightarrow> string \<Rightarrow> string \<Rightarrow> 'v memo_store \<Rightarrow> string \<Rightarrow> 'v memo \<Rightarrow> 'v branch" where
  "re_search_bio w analyst_name instruction memo_store memo_id memo =
     (let firm = memo_firm memo;
          result = search_analyst_bio (w_ddgs w) analyst_name firm;
          search_results = br_search_results result;
          (name, content, status) =
            generate_section w ''bio'' ''analyst_bio''
              (BioContext analyst_name firm search_results) instruction;
          bio_sources = top_sources (w_netloc w) search_results 5;
          n_domains = length bio_sources;
          bio_confidence =
            (if n_domains \<ge> 3 then confidence_of ''high'' (show_nat n_domains @ '' sources found'')
             else if n_domains \<ge> 1 then
               confidence_of ''medium''
                 (''Only '' @ show_nat n_domains @ '' source''
                    @ (if n_domains > 1 then ''s'' else '''') @ '' found'')
             else confidence_of ''low'' ''No web sources found'')
      in ([RegenStep ''bio'' ''Searching for analyst background'',
           RegenStep ''bio'' ''Drafting bio section with Claude'',
           RegenSection ''bio'' content bio_sources bio_confidence],
          store_section memo_store memo_id memo ''bio''
            (Narrative name content status bio_sources bio_confidence),
          [CallSearchBio, CallGenerate ''bio''], True))"

definition re_search_forecast ::
  "'v world \<Rightarrow> string \<Rightarrow> string \<Rightarrow> 'v memo_store \<Rightarrow> string \<Rightarrow> 'v memo \<Rightarrow> 'v branch" where
  "re_search_forecast w analyst_name instruction memo_store memo_id memo =
     (case w_read_forecast w analyst_name of
        Inr result \<Rightarrow>
          (let modified_rows =
                 (if instruction \<noteq> [] then w_edit_table w (fc_table_rows result) instruction
                  else None);
               edited =
                 (case modified_rows of
                    None \<Rightarrow> result
                  | Some rows \<Rightarrow> (if rows \<noteq> [] then result\<lparr>fc_table_rows := rows\<rparr> else result));
               date_updated = fc_date_updated edited;
               forecast_sources =
                 [\<lparr>src_url = '''', src_domain = ''analyst_key_metrics.xlsx'',
                   src_label = ''Row: '' @ analyst_name @ '', '' @ memo_firm memo
                                 @ '', updated '' @ date_updated\<rparr>];
               fc_confidence =
                 (if fc_is_stale edited then
                    confidence_of ''medium''
                      (''Data is older than 30 days (updated '' @ date_updated @ '')'')
                  else confidence_of ''high'' ''Data current'');
               stored = ForecastTable edited forecast_sources fc_confidence
           in ([RegenStep ''forecast'' ''Re-reading forecast from Excel''] @
               (if instruction \<noteq> [] then
                  [RegenStep ''forecast'' ''Applying changes to forecast table'']
                else []) @
               [RegenForecast stored],
               store_section memo_store memo_id memo ''forecast'' stored,
               CallReadForecast # (if instruction \<noteq> [] then [CallEditTable] else []), True))
      | Inl err \<Rightarrow>
          ([RegenStep ''forecast'' ''Re-reading forecast from Excel'',
            RegenError ''forecast'' ''Failed to read forecast data''],
           memo_store, [CallReadForecast], False))"

definition re_search_earnings ::
  "'v world \<Rightarrow> string \<Rightarrow> string \<Rightarrow> 'v memo_store \<Rightarrow> string \<Rightarrow> 'v memo \<Rightarrow> 'v branch" where
  "re_search_earnings w analyst_name instruction memo_store memo_id memo =
     (let result = get_transcript (w_transcripts w) ''MS'' ''Morgan Stanley'';
          source_name = tr_source result;
          prompt_text = (if tr_text result = [] then unavailable_text else tr_text result);
          (name, content, status) =
            generate_section w ''earnings'' ''earnings_feedback''
              (EarningsContext analyst_name (memo_firm memo) (take 15000 prompt_text))
              instruction;
          transcript_sources =
            (if prompt_text \<noteq> [] \<and> \<not> contains prompt_text ''[not available'' then
               [\<lparr>src_url = tr_source_url result, src_domain = source_name,
                 src_label = ''Transcript from '' @ source_name\<rparr>]
             else []);
          earnings_confidence = confidence_of ''medium'' ''Regenerated section''
      in ([RegenStep ''earnings'' ''Re-fetching earnings transcript'',
           RegenStep ''earnings'' ''Drafting post-earnings feedback'',
           RegenSection ''earnings'' content transcript_sources earnings_confidence],
          store_section memo_store memo_id memo ''earnings''
            (Narrative name content status transcript_sources earnings_confidence),
          [CallTranscript, CallGenerate ''earnings''], True))"

definition re_search_peer ::
  "'v world \<Rightarrow> string \<Rightarrow> string \<Rightarrow> 'v memo_store \<Rightarrow> string \<Rightarrow> 'v memo \<Rightarrow> 'v branch" where
  "re_search_peer w analyst_name instruction memo_store memo_id memo =
     (let result = search_peer_research (w_ddgs w) analyst_name PEER_TICKERS;
          all_peer_search_results =
            concat (map snd (pr_peer_results result)) @ pr_sector_results result;
          (name, content, status) =
            generate_section w ''peer'' ''peer_research''
              (PeerContext analyst_name (memo_firm memo) (pr_peer_results result)
                 (pr_sector_results result))
              instruction;
          peer_sources = top_sources (w_netloc w) all_peer_search_results 5;
          n_domains = length peer_sources;
          peer_confidence =
            (if n_domains \<ge> 2 then
               confidence_of ''high'' (''Commentary from '' @ show_nat n_domains @ '' sources'')
             else if n_domains \<ge> 1 then confidence_of ''medium'' ''Limited sources''
             else confidence_of ''low'' ''No peer commentary found'')
      in ([RegenStep ''peer'' ''Searching for peer commentary'',
           RegenStep ''peer'' ''Drafting peer research summary'',
           RegenSection ''peer'' content peer_sources peer_confidence],
          store_section memo_store memo_id memo ''peer''
            (Narrative name content status peer_sources peer_confidence),
          [CallSearchPeers, CallGenerate ''peer''], True))"

definition re_search_valuation ::
  "'v world \<Rightarrow> string \<Rightarrow> 'v memo_store \<Rightarrow> string \<Rightarrow> 'v memo \<Rightarrow> 'v branch" where
  "re_search_valuation w instruction memo_store memo_id memo =
     (let existing_tickers = existing_tickers_of (memo_sections memo ''valuation'');
          new_tickers = parse_ticker_changes instruction existing_tickers;
          step = RegenStep ''valuation''
                   (''Pulling fresh valuation data for '' @ join '', '' new_tickers)
      in case get_valuation_data (w_market w) new_tickers of
           Inr result \<Rightarrow>
             (if vd_status result = ''success'' then
                ([step, RegenValuation (refreshed_valuation w result new_tickers)],
                 store_section memo_store memo_id memo ''valuation''
                   (refreshed_valuation w result new_tickers),
                 [CallValuation new_tickers], True)
              else
                ([step, RegenError ''valuation'' ''Failed to pull valuation data''], memo_store,
                 [CallValuation new_tickers], False))
         | Inl e \<Rightarrow>
             ([step, RegenError ''valuation'' ''Failed to pull valuation data''], memo_store,
              [CallValuation new_tickers], False))"

definition re_search ::
  "'v world \<Rightarrow> string \<Rightarrow> string \<Rightarrow> string \<Rightarrow> 'v memo_store \<Rightarrow> string \<Rightarrow> 'v memo \<Rightarrow> 'v branch" where
  "re_search w section_key analyst_name instruction memo_store memo_id memo =
     (if section_key = ''bio'' then re_search_bio w analyst_name instruction memo_store memo_id memo
      else if section_key = ''forecast'' then
        re_search_forecast w analyst_name instruction memo_store memo_id memo
      else if section_key = ''earnings'' then
        re_search_earnings w analyst_name instruction memo_store memo_id memo
      else if section_key = ''peer'' then
        re_search_peer w analyst_name instruction memo_store memo_id memo
      else if section_key = ''valuation'' then
        re_search_valuation w instruction memo_store memo_id memo
      else ([RegenError section_key (''Unknown section: '' @ section_key)], memo_store, [], False))"

subsection \<open>The regeneration request\<close>

text \<open>
  \<^verbatim>\<open>_run_regeneration_inner\<close>. The guard of \<^verbatim>\<open>run_regeneration\<close> turns an exception of
  the inner generator into a \<^verbatim>\<open>regen_error\<close>; the exception of a leaf is caught by
  \<^verbatim>\<open>_run_step\<close> and no other statement of the inner generator raises on the records
  above, so the request is the inner generator. The result is the events, the store and
  the leaf calls.
\<close>

definition run_regeneration ::
  "'v world \<Rightarrow> string \<Rightarrow> string \<Rightarrow> string \<Rightarrow> bool \<Rightarrow> 'v memo_store \<Rightarrow> string \<Rightarrow> string
     \<Rightarrow> 'v event list \<times> 'v memo_store \<times> leaf_call list" where
  "run_regeneration w section_key analyst_name instruction research memo_store memo_id
     current_content =
     (case memo_store memo_id of
        None \<Rightarrow> ([RegenError section_key ''Memo not found''], memo_store, [])
      | Some memo \<Rightarrow>
          (let (events, stored, calls, finished) =
                 (if \<not> research then
                    draft_only w section_key instruction current_content memo_store memo_id memo
                  else re_search w section_key analyst_name instruction memo_store memo_id memo)
           in (RegenStart section_key # events
                 @ (if finished then [RegenComplete section_key] else []),
               stored, calls)))"

section \<open>Properties of generators and memos\<close>

text \<open>A list of events is quiet when none of them is terminal.\<close>

definition quiet :: "'v event list \<Rightarrow> bool" where
  "quiet es \<longleftrightarrow> list_all (\<lambda>x. \<not> is_terminal x) es"

text \<open>
  A generator ends with the event \<open>t\<close> when, returning normally, its last event is \<open>t\<close>
  and the events before it are quiet, and, raising, all its events are quiet.
\<close>

definition ends_with :: "'v event \<Rightarrow> ('v, 'a) gen \<Rightarrow> bool" where
  "ends_with t g \<longleftrightarrow>
     (case snd g of
        Inl e \<Rightarrow> quiet (fst g)
      | Inr a \<Rightarrow> fst g \<noteq> [] \<and> last (fst g) = t \<and> quiet (butlast (fst g)))"

definition section_put :: "string \<Rightarrow> 'v memo \<Rightarrow> 'v memo \<Rightarrow> bool" where
  "section_put key memo memo' \<longleftrightarrow> (\<exists>r. memo' = put_section key r memo)"

section \<open>Example worlds\<close>

text \<open>
  A world in which the searches fail, no transcript tier answers, the analyst is not
  in the spreadsheet, drafting succeeds and editing fails; and the same world with a
  quality check that answers a JSON list.
\<close>

definition demo_world :: "quote world" where
  "demo_world =
     \<lparr>w_read_firm = (\<lambda>a. Inr ''Wells Fargo''),
      w_ddgs = failing_ddgs,
      w_netloc = demo_netloc,
      w_transcripts = silent_env,
      w_market = demo_market,
      w_read_forecast = (\<lambda>a. Inl ''Analyst not found in Excel file''),
      w_generate = (\<lambda>name template ctx instruction. Inr ''Draft.''),
      w_edit = (\<lambda>name content instruction. Inl ''service unavailable''),
      w_edit_table = (\<lambda>rows instruction. None),
      w_quality_check = (\<lambda>sections. QcReport (Some ''pass'') (Some ''ok'')),
      w_peer_age = (\<lambda>content. None),
      w_today = ''January 01, 2026'',
      w_uuid = ''0123abcd-0000-4000-8000-000000000000''\<rparr>"

definition faulty_qc_world :: "quote world" where
  "faulty_qc_world =
     demo_world\<lparr>w_quality_check := (\<lambda>sections. QcNotAnObject ''list object has no attribute get'')\<rparr>"

section \<open>Stored sections and an example store\<close>

text \<open>The record stored for a section key in the memo of an identifier, if any.\<close>

definition section_after :: "'v memo_store \<Rightarrow> string \<Rightarrow> string \<Rightarrow> 'v section_record option" where
  "section_after memo_store memo_id key =
     (case memo_store memo_id of None \<Rightarrow> None | Some memo \<Rightarrow> memo_sections memo key)"

text \<open>
  A store with one memo that holds a bio and a valuation for three tickers: what
  \<open>get_valuation_data\<close> returns at the example market for MS, GS and JPM.
\<close>

definition demo_pull :: "quote valuation" where
  "demo_pull =
     \<lparr>vd_status = ''success'',
      vd_tickers = [(''MS'', fetch_ticker demo_market ''MS''),
                    (''GS'', fetch_ticker demo_market ''GS''),
                    (''JPM'', fetch_ticker demo_market ''JPM'')],
      vd_as_of = ''2026-01-01 09:30 ET'',
      vd_peer_median =
        [(''Stock Price'', Median (Finite 40000)), (''P/E (TTM)'', NoMedian),
         (''Forward P/E'', NoMedian), (''Price/Book'', NoMedian),
         (''Dividend Yield'', NoMedian), (''Market Cap ($B)'', NoMedian),
         (''52W High'', Dash), (''52W Low'', Dash)]\<rparr>"

definition demo_memo :: "quote memo" where
  "demo_memo =
     \<lparr>memo_analyst = ''Mike Mayo'', memo_firm = ''Wells Fargo'', memo_company = ''MS'',
      memo_date = ''January 01, 2026'',
      memo_sections =
        [''bio'' \<mapsto> Narrative ''bio'' ''Stored bio.'' ''success'' []
                      (confidence_of ''high'' ''3 sources found''),
         ''valuation'' \<mapsto> ValuationTable demo_pull
                      [] (confidence_of ''medium'' ''1 of 3 tickers failed'') None],
      memo_quality_check = Some (QcReport (Some ''pass'') (Some ''ok''))\<rparr>"

definition demo_store :: "quote memo_store" where
  "demo_store = [''m1'' \<mapsto> demo_memo]"

chapter \<open>Verification\<close>

section \<open>Provenance sources\<close>

lemma extract_domain_nonempty: "u \<noteq> [] \<Longrightarrow> extract_domain netloc u \<noteq> []"
  by (simp add: extract_domain_def Let_def split: option.splits)

lemma top_sources_loop_eq:
  "length sources < max_n \<Longrightarrow>
   top_sources_loop netloc max_n rs sources seen =
     sources @ take (max_n - length sources)
                 (map (source_of netloc) (new_domain_results netloc rs seen))"
proof (induction rs arbitrary: sources seen)
  case Nil
  then show ?case by simp
next
  case (Cons r rs)
  show ?case
  proof (cases "sr_href r = [] \<or> extract_domain netloc (sr_href r) \<in> set seen")
    case True
    then show ?thesis
      using Cons.IH [OF Cons.prems] by (auto simp: Let_def)
  next
    case False
    then have ne: "extract_domain netloc (sr_href r) \<noteq> []"
      by (simp add: extract_domain_nonempty)
    show ?thesis
    proof (cases "Suc (length sources) \<ge> max_n")
      case True
      with Cons.prems have "max_n - length sources = Suc 0" by arith
      with False ne True show ?thesis by (simp add: Let_def)
    next
      case False2: False
      then have lt: "length (sources @ [source_of netloc r]) < max_n" by simp
      obtain k where k: "max_n - length sources = Suc k"
        using Cons.prems by (cases "max_n - length sources") auto
      then have k': "max_n - Suc (length sources) = k" by arith
      show ?thesis
        using False ne False2 Cons.IH [OF lt] k k' by (simp add: Let_def)
    qed
  qed
qed

lemma top_sources_eq:
  "0 < max_n \<Longrightarrow>
   top_sources netloc rs max_n =
     take max_n (map (source_of netloc) (new_domain_results netloc rs []))"
  by (simp add: top_sources_def top_sources_loop_eq)

lemma new_domain_results_subset:
  "set (new_domain_results netloc rs seen) \<subseteq> {r \<in> set rs. sr_href r \<noteq> []}"
  by (induction rs arbitrary: seen) auto

lemma new_domain_results_domains:
  "map (\<lambda>r. extract_domain netloc (sr_href r)) (new_domain_results netloc rs seen) =
   filter (\<lambda>d. d \<notin> set seen)
     (first_occurrences
        (map (\<lambda>r. extract_domain netloc (sr_href r)) (filter (\<lambda>r. sr_href r \<noteq> []) rs)))"
proof (induction rs arbitrary: seen)
  case Nil
  then show ?case by simp
next
  case (Cons r rs)
  show ?case
  proof (cases "sr_href r = []")
    case True
    then show ?thesis using Cons.IH by simp
  next
    case False
    let ?d = "extract_domain netloc (sr_href r)"
    show ?thesis
    proof (cases "?d \<in> set seen")
      case True
      have "\<And>xs :: string list. filter (\<lambda>d. d \<notin> set seen) (filter (\<lambda>y. y \<noteq> ?d) xs)
              = filter (\<lambda>d. d \<notin> set seen) xs"
        using True by (auto intro: filter_cong)
      then show ?thesis using False True Cons.IH [of seen] by simp
    next
      case notin: False
      have "\<And>xs :: string list. filter (\<lambda>d. d \<notin> set seen) (filter (\<lambda>y. y \<noteq> ?d) xs)
              = filter (\<lambda>d. d \<notin> set (?d # seen)) xs"
        by (auto intro: filter_cong)
      then show ?thesis using False notin Cons.IH [of "?d # seen"] by simp
    qed
  qed
qed

lemma distinct_first_occurrences: "distinct (first_occurrences xs)"
  by (induction xs) auto

lemma source_of_domain:
  "map src_domain (map (source_of netloc) rs) = map (\<lambda>r. extract_domain netloc (sr_href r)) rs"
  by (induction rs) (simp_all add: source_of_def)

text \<open>
  Claim C10. For every list of search results, the source list that \<open>top_sources\<close>
  builds with the limit 5 has at most five entries, its domains are pairwise distinct,
  every entry is built from a search result of the input whose URL is not empty, and
  the domains stand in the order in which they first occur among the results with a
  URL.
\<close>

theorem top_sources_invariants:
  "length (top_sources netloc rs 5) \<le> 5 \<and>
   distinct (map src_domain (top_sources netloc rs 5)) \<and>
   (\<forall>e \<in> set (top_sources netloc rs 5).
      \<exists>r \<in> set rs. sr_href r \<noteq> [] \<and> e = source_of netloc r) \<and>
   map src_domain (top_sources netloc rs 5) =
     take 5 (first_occurrences
       (map (\<lambda>r. extract_domain netloc (sr_href r)) (filter (\<lambda>r. sr_href r \<noteq> []) rs)))"
proof -
  let ?new = "new_domain_results netloc rs []"
  have eq: "top_sources netloc rs 5 = take 5 (map (source_of netloc) ?new)"
    by (simp add: top_sources_eq)
  have doms: "map src_domain (map (source_of netloc) ?new) =
      first_occurrences
        (map (\<lambda>r. extract_domain netloc (sr_href r)) (filter (\<lambda>r. sr_href r \<noteq> []) rs))"
    unfolding source_of_domain using new_domain_results_domains [of netloc rs "[]"] by simp
  have len: "length (top_sources netloc rs 5) \<le> 5"
    by (simp add: eq)
  have order: "map src_domain (top_sources netloc rs 5) =
      take 5 (first_occurrences
        (map (\<lambda>r. extract_domain netloc (sr_href r)) (filter (\<lambda>r. sr_href r \<noteq> []) rs)))"
    unfolding eq take_map [symmetric] using doms by (simp add: take_map)
  have dist: "distinct (map src_domain (top_sources netloc rs 5))"
    unfolding order by (rule distinct_take) (rule distinct_first_occurrences)
  have origin: "\<forall>e \<in> set (top_sources netloc rs 5).
      \<exists>r \<in> set rs. sr_href r \<noteq> [] \<and> e = source_of netloc r"
  proof
    fix e
    assume "e \<in> set (top_sources netloc rs 5)"
    then have "e \<in> set (map (source_of netloc) ?new)"
      unfolding eq by (rule in_set_takeD)
    then obtain r where "r \<in> set ?new" and e: "e = source_of netloc r" by auto
    with new_domain_results_subset [of netloc rs "[]"]
    have "r \<in> set rs" and "sr_href r \<noteq> []" by auto
    with e show "\<exists>r \<in> set rs. sr_href r \<noteq> [] \<and> e = source_of netloc r" by blast
  qed
  from len dist origin order show ?thesis by blast
qed

theorem top_sources_invariants_witness:
  "map src_domain (top_sources demo_netloc demo_results 5) =
     [''a.com'', ''b.org'', ''c.net'', ''d.io'', ''e.com''] \<and>
   map src_url (top_sources demo_netloc demo_results 5) =
     [''https://www.a.com/1'', ''https://b.org/x'', ''https://c.net/'', ''https://d.io/'',
      ''https://e.com/''] \<and>
   length (top_sources demo_netloc demo_results 5) \<le> 5 \<and>
   distinct (map src_domain (top_sources demo_netloc demo_results 5))"
proof -
  have run: "map src_domain (top_sources demo_netloc demo_results 5) =
      [''a.com'', ''b.org'', ''c.net'', ''d.io'', ''e.com'']"
    by code_simp
  have urls: "map src_url (top_sources demo_netloc demo_results 5) =
     [''https://www.a.com/1'', ''https://b.org/x'', ''https://c.net/'', ''https://d.io/'',
      ''https://e.com/'']"
    by code_simp
  note inv = top_sources_invariants [of demo_netloc demo_results]
  from inv have len: "length (top_sources demo_netloc demo_results 5) \<le> 5"
    by (rule conjunct1)
  from inv have dist: "distinct (map src_domain (top_sources demo_netloc demo_results 5))"
    by (elim conjE)
  from run urls len dist show ?thesis by blast
qed

section \<open>Ticker-edit parsing\<close>

lemma replace_first_head:
  "ts \<noteq> [] \<Longrightarrow> old \<noteq> hd ts \<Longrightarrow>
   replace_first old new ts \<noteq> [] \<and> hd (replace_first old new ts) = hd ts"
  by (cases ts) auto

lemma remove1_head:
  "ts \<noteq> [] \<Longrightarrow> old \<noteq> hd ts \<Longrightarrow> remove1 old ts \<noteq> [] \<and> hd (remove1 old ts) = hd ts"
  by (cases ts) auto

text \<open>The loop invariant: the list is not empty and starts with the target.\<close>

lemma replace_step_head:
  "fst st \<noteq> [] \<Longrightarrow> hd (fst st) = target \<Longrightarrow>
   fst (replace_step target m st) \<noteq> [] \<and> hd (fst (replace_step target m st)) = target"
  by (cases "(target, m, st)" rule: replace_step.cases) (auto simp: replace_first_head)

lemma add_step_head:
  "fst st \<noteq> [] \<Longrightarrow> hd (fst st) = target \<Longrightarrow>
   fst (add_step m st) \<noteq> [] \<and> hd (fst (add_step m st)) = target"
  by (cases "(m, st)" rule: add_step.cases) auto

lemma remove_step_head:
  "fst st \<noteq> [] \<Longrightarrow> hd (fst st) = target \<Longrightarrow>
   fst (remove_step target m st) \<noteq> [] \<and> hd (fst (remove_step target m st)) = target"
  by (cases "(target, m, st)" rule: remove_step.cases) (auto simp: remove1_head)

lemma fold_head:
  assumes step: "\<And>m st. fst st \<noteq> [] \<Longrightarrow> hd (fst st) = target \<Longrightarrow>
                   fst (f m st) \<noteq> [] \<and> hd (fst (f m st)) = target"
  shows "fst st \<noteq> [] \<Longrightarrow> hd (fst st) = target \<Longrightarrow>
         fst (fold f ms st) \<noteq> [] \<and> hd (fst (fold f ms st)) = target"
proof (induction ms arbitrary: st)
  case Nil
  then show ?case by simp
next
  case (Cons m ms)
  from step [OF Cons.prems] Cons.IH [of "f m st"] show ?case by simp
qed

lemma parse_ticker_changes_head:
  assumes "cur \<noteq> []"
  shows "parse_ticker_changes instr cur \<noteq> [] \<and> hd (parse_ticker_changes instr cur) = hd cur"
proof -
  let ?t = "hd cur"
  let ?text = "upper instr"
  let ?st1 = "fold (replace_step ?t) (finditer replace_pattern ?text) (cur, False)"
  let ?st2 = "fold add_step (finditer add_pattern ?text) ?st1"
  let ?st3 = "fold (remove_step ?t) (finditer remove_pattern ?text) ?st2"
  have 1: "fst ?st1 \<noteq> [] \<and> hd (fst ?st1) = ?t"
    using assms by (intro fold_head replace_step_head) auto
  then have 2: "fst ?st2 \<noteq> [] \<and> hd (fst ?st2) = ?t"
    by (intro fold_head add_step_head) auto
  then have 3: "fst ?st3 \<noteq> [] \<and> hd (fst ?st3) = ?t"
    by (intro fold_head remove_step_head) auto
  show ?thesis
    using assms 3 by (simp add: parse_ticker_changes_def Let_def)
qed

text \<open>
  Claim C3. The two reference vectors of the ticker-edit parser hold, and for every
  instruction and every current symbol list that is not empty, the result is not empty
  and its first symbol (index 0, the subject) is the first symbol of the current list:
  no directive removes or replaces it.
\<close>

theorem parse_ticker_changes_subject_kept:
  "parse_ticker_changes ''Replace GS with BLK and add HOOD'' [''MS'', ''GS'', ''JPM'']
     = [''MS'', ''BLK'', ''JPM'', ''HOOD''] \<and>
   parse_ticker_changes ''Remove MS'' [''MS'', ''GS''] = [''MS'', ''GS''] \<and>
   (\<forall>instruction current.
      current \<noteq> [] \<longrightarrow>
        parse_ticker_changes instruction current \<noteq> [] \<and>
        parse_ticker_changes instruction current ! 0 = current ! 0)"
proof -
  have v1: "parse_ticker_changes ''Replace GS with BLK and add HOOD'' [''MS'', ''GS'', ''JPM'']
     = [''MS'', ''BLK'', ''JPM'', ''HOOD'']"
    by code_simp
  have v2: "parse_ticker_changes ''Remove MS'' [''MS'', ''GS''] = [''MS'', ''GS'']"
    by code_simp
  have g: "\<forall>instruction current.
      current \<noteq> [] \<longrightarrow>
        parse_ticker_changes instruction current \<noteq> [] \<and>
        parse_ticker_changes instruction current ! 0 = current ! 0"
  proof (intro allI impI)
    fix instruction and current :: "string list"
    assume ne: "current \<noteq> []"
    from parse_ticker_changes_head [OF ne, of instruction]
    show "parse_ticker_changes instruction current \<noteq> [] \<and>
        parse_ticker_changes instruction current ! 0 = current ! 0"
      using ne by (auto simp: hd_conv_nth)
  qed
  from v1 v2 g show ?thesis by blast
qed

theorem parse_ticker_changes_subject_kept_witness:
  "[''MS'', ''GS'', ''JPM''] \<noteq> ([] :: string list) \<and>
   parse_ticker_changes ''swap MS for C, drop MS and exclude GS'' [''MS'', ''GS'', ''JPM'']
     = [''MS'', ''JPM''] \<and>
   parse_ticker_changes ''swap MS for C, drop MS and exclude GS'' [''MS'', ''GS'', ''JPM''] ! 0
     = ''MS''"
proof -
  have run: "parse_ticker_changes ''swap MS for C, drop MS and exclude GS''
      [''MS'', ''GS'', ''JPM''] = [''MS'', ''JPM'']"
    by code_simp
  from parse_ticker_changes_subject_kept run show ?thesis by simp
qed

section \<open>Transcript retrieval\<close>

lemmas tier_defs =
  get_transcript_def invoked_tiers_def get_transcript_logged_def from_tier2_def
  from_tier3_def from_tier4_def from_tier5_def succeeds_def tier_outcome_def is_attempt_def
  found_def all_tiers_failed_def

text \<open>
  Resolution stops at the first attempt that succeeds: the result carries its tier, and
  the tier functions called are the attempts up to it, each once and in ascending order.
\<close>

lemma first_success:
  assumes k: "k \<in> {1..5}"
    and ok: "succeeds env ticker company_name k"
    and before: "\<forall>t \<in> {1..<k}. \<not> succeeds env ticker company_name t"
  shows "tr_tier (get_transcript env ticker company_name) = k \<and>
         tr_status (get_transcript env ticker company_name) = ''success'' \<and>
         invoked_tiers env ticker company_name = filter (is_attempt ticker) [1..<Suc k]"
proof -
  from k consider "k = 1" | "k = 2" | "k = 3" | "k = 4" | "k = 5"
    by (auto simp: numeral_eq_Suc le_Suc_eq)
  then show ?thesis
  proof cases
    case 1
    with ok show ?thesis
      by (simp add: tier_defs upt_rec case_prod_beta Let_def)
  next
    case 2
    with before have "\<not> succeeds env ticker company_name 1" by simp
    with 2 ok show ?thesis
      by (simp add: tier_defs upt_rec case_prod_beta Let_def)
  next
    case 3
    with before have "\<not> succeeds env ticker company_name 1"
      and "\<not> succeeds env ticker company_name 2" by simp_all
    with 3 ok show ?thesis
      by (simp add: tier_defs upt_rec case_prod_beta Let_def)
  next
    case 4
    with before have "\<not> succeeds env ticker company_name 1"
      and "\<not> succeeds env ticker company_name 2"
      and "\<not> succeeds env ticker company_name 3" by simp_all
    with 4 ok show ?thesis
      by (simp add: tier_defs upt_rec case_prod_beta Let_def)
  next
    case 5
    with before have "\<not> succeeds env ticker company_name 1"
      and "\<not> succeeds env ticker company_name 2"
      and "\<not> succeeds env ticker company_name 3"
      and "\<not> succeeds env ticker company_name 4" by simp_all
    with 5 ok show ?thesis
      by (simp add: tier_defs upt_rec case_prod_beta Let_def)
  qed
qed

lemma interval_1_5: "{1..5::nat} = {1, 2, 3, 4, 5}"
  by auto

lemma exhausted_chain:
  assumes "\<forall>t \<in> {1..5}. \<not> succeeds env ticker company_name t"
  shows "get_transcript env ticker company_name = all_tiers_failed \<and>
         invoked_tiers env ticker company_name = filter (is_attempt ticker) [1..<6]"
  using assms unfolding interval_1_5
  by (simp add: tier_defs upt_rec case_prod_beta Let_def)

text \<open>
  Claim C1. When exactly one of the five tier attempts succeeds, attempt \<open>k\<close>, then
  \<open>get_transcript\<close> reports tier \<open>k\<close>; the tier functions it has called are the
  attempts from 1 to \<open>k\<close> (tier 2 is an attempt only for a ticker with a CIK entry), in
  strictly ascending order and hence each at most once; no tier after \<open>k\<close> is called.
\<close>

theorem get_transcript_stops_at_success:
  assumes "k \<in> {1..5}"
    and "\<forall>t \<in> {1..5}. succeeds env ticker company_name t \<longleftrightarrow> t = k"
  shows "tr_tier (get_transcript env ticker company_name) = k \<and>
         tr_status (get_transcript env ticker company_name) = ''success'' \<and>
         invoked_tiers env ticker company_name = filter (is_attempt ticker) [1..<Suc k] \<and>
         sorted_wrt (<) (invoked_tiers env ticker company_name) \<and>
         distinct (invoked_tiers env ticker company_name) \<and>
         k \<in> set (invoked_tiers env ticker company_name) \<and>
         (\<forall>t \<in> set (invoked_tiers env ticker company_name). 1 \<le> t \<and> t \<le> k)"
proof -
  from assms have ok: "succeeds env ticker company_name k" by blast
  from assms have before: "\<forall>t \<in> {1..<k}. \<not> succeeds env ticker company_name t" by auto
  note fs = first_success [OF assms(1) ok before]
  then have log: "invoked_tiers env ticker company_name = filter (is_attempt ticker) [1..<Suc k]"
    by blast
  have asc: "sorted_wrt (<) (invoked_tiers env ticker company_name)"
    unfolding log by (rule sorted_wrt_filter) (rule sorted_wrt_upt)
  have dist: "distinct (invoked_tiers env ticker company_name)"
    unfolding log by simp
  have last: "k \<in> set (invoked_tiers env ticker company_name)"
    unfolding log using ok assms(1) by (simp add: succeeds_def)
  have range: "\<forall>t \<in> set (invoked_tiers env ticker company_name). 1 \<le> t \<and> t \<le> k"
    unfolding log by auto
  from fs asc dist last range show ?thesis by blast
qed

theorem get_transcript_stops_at_success_witness:
  "(3::nat) \<in> {1..5} \<and>
   succeeds fmp_only_env ''MS'' ''Morgan Stanley'' 3 \<and>
   \<not> succeeds fmp_only_env ''MS'' ''Morgan Stanley'' 1 \<and>
   \<not> succeeds fmp_only_env ''MS'' ''Morgan Stanley'' 2 \<and>
   \<not> succeeds fmp_only_env ''MS'' ''Morgan Stanley'' 4 \<and>
   \<not> succeeds fmp_only_env ''MS'' ''Morgan Stanley'' 5 \<and>
   tr_tier (get_transcript fmp_only_env ''MS'' ''Morgan Stanley'') = 3 \<and>
   invoked_tiers fmp_only_env ''MS'' ''Morgan Stanley'' = [1, 2, 3]"
proof -
  have k: "(3::nat) \<in> {1..5}" by simp
  have each: "succeeds fmp_only_env ''MS'' ''Morgan Stanley'' 3"
    "\<not> succeeds fmp_only_env ''MS'' ''Morgan Stanley'' 1"
    "\<not> succeeds fmp_only_env ''MS'' ''Morgan Stanley'' 2"
    "\<not> succeeds fmp_only_env ''MS'' ''Morgan Stanley'' 4"
    "\<not> succeeds fmp_only_env ''MS'' ''Morgan Stanley'' 5"
    by (simp_all add: succeeds_def tier_outcome_def is_attempt_def fmp_only_env_def
        silent_env_def COMPANY_CIKS_def)
  then have only: "\<forall>t \<in> {1..5}. succeeds fmp_only_env ''MS'' ''Morgan Stanley'' t \<longleftrightarrow> t = 3"
    unfolding interval_1_5 by simp
  have att: "filter (is_attempt ''MS'') [1..<Suc 3] = [1, 2, 3]"
    by (simp add: is_attempt_def COMPANY_CIKS_def upt_rec)
  note r = get_transcript_stops_at_success [OF k only]
  from r have tier: "tr_tier (get_transcript fmp_only_env ''MS'' ''Morgan Stanley'') = 3"
    by (rule conjunct1)
  from r have "invoked_tiers fmp_only_env ''MS'' ''Morgan Stanley'' =
      filter (is_attempt ''MS'') [1..<Suc 3]"
    by (elim conjE)
  then have log: "invoked_tiers fmp_only_env ''MS'' ''Morgan Stanley'' = [1, 2, 3]"
    unfolding att .
  from k each tier log show ?thesis by blast
qed

section \<open>Fan-out leaves\<close>

lemma map_of_fold_update:
  "map_of (fold (\<lambda>(ticker, result) d. AList.update ticker result d) (zip ts (map f ts)) d) t
     = (if t \<in> set ts then Some (f t) else map_of d t)"
  by (induction ts arbitrary: d) (auto simp: update_conv')

lemma keys_fold_update:
  "fst ` set (fold (\<lambda>(ticker, result) d. AList.update ticker result d) (zip ts (map f ts)) d)
     = set ts \<union> fst ` set d"
  by (induction ts arbitrary: d) (auto simp: dom_update)

lemma null_row_eq:
  "null_row m = map (\<lambda>label. (label, None))
     [''Stock Price'', ''P/E (TTM)'', ''Forward P/E'', ''Price/Book'', ''Dividend Yield'',
      ''Market Cap ($B)'', ''52W High'', ''52W Low'']"
  by (simp add: null_row_def METRICS_def)

lemma peer_medians_defined:
  "\<forall>label \<in> set labels. \<exists>x. f label = Inr x \<Longrightarrow> \<exists>rest. peer_medians f labels = Inr rest"
  by (induction labels) auto

lemma peer_medians_raised:
  "peer_medians f labels = Inl e \<Longrightarrow> \<exists>label \<in> set labels. f label = Inl e"
  by (induction labels) (auto split: sum.splits)

text \<open>
  What a pull that returns has returned: status success and an entry for exactly the
  requested tickers, the entry of a ticker being what \<open>fetch_ticker\<close> returns for it.
\<close>

lemma valuation_returned:
  assumes "get_valuation_data m tickers = Inr v"
  shows "vd_status v = ''success''"
    and "vd_as_of v = now_stamp m"
    and "vd_tickers v = fold (\<lambda>(ticker, result) d. AList.update ticker result d)
                          (zip tickers (map (fetch_ticker m) tickers)) []"
  using assms by (auto simp: get_valuation_data_def Let_def split: sum.splits)

lemma valuation_returned_keys:
  assumes "get_valuation_data m tickers = Inr v"
  shows "set (map fst (vd_tickers v)) = set tickers"
  unfolding valuation_returned(3) [OF assms]
  using keys_fold_update [where f = "fetch_ticker m" and ts = tickers and d = "[]"] by simp

lemma valuation_returned_rows:
  assumes "get_valuation_data m tickers = Inr v" and "t \<in> set tickers"
  shows "map_of (vd_tickers v) t = Some (fetch_ticker m t)"
  unfolding valuation_returned(3) [OF assms(1)] using assms(2) by (simp add: map_of_fold_update)

text \<open>A ticker whose lookup raises gets the row of \<open>None\<close>; a search that raises is empty.\<close>

lemma fetch_ticker_failed:
  "yf_info m t = Inl e \<Longrightarrow> fetch_ticker m t = map (\<lambda>label. (label, None))
     [''Stock Price'', ''P/E (TTM)'', ''Forward P/E'', ''Price/Book'', ''Dividend Yield'',
      ''Market Cap ($B)'', ''52W High'', ''52W Low'']"
  by (simp add: fetch_ticker_def null_row_eq)

lemma search_failed: "ddgs query n = Inl e \<Longrightarrow> search ddgs query n = []"
  by (simp add: search_def)

text \<open>The pull raises only where the quantized median of some peer values raises.\<close>

lemma valuation_raised:
  assumes "get_valuation_data m tickers = Inl e"
  shows "\<exists>vals. vals \<noteq> [] \<and> median_2 m vals = Inl e"
proof -
  from assms have "\<exists>f labels. peer_medians f labels = Inl e \<and>
      (\<forall>label. \<exists>vals. f label =
         (if label = ''52W High'' \<or> label = ''52W Low'' then Inr Dash
          else if vals \<noteq> [] then
                 (case median_2 m vals of Inl e \<Rightarrow> Inl e | Inr x \<Rightarrow> Inr (Median x))
               else Inr NoMedian))"
    unfolding get_valuation_data_def Let_def
    by (intro exI conjI allI) (auto split: sum.splits)
  then obtain f labels where raised: "peer_medians f labels = Inl e"
    and f: "\<And>label. \<exists>vals. f label =
         (if label = ''52W High'' \<or> label = ''52W Low'' then Inr Dash
          else if vals \<noteq> [] then
                 (case median_2 m vals of Inl e \<Rightarrow> Inl e | Inr x \<Rightarrow> Inr (Median x))
               else Inr NoMedian)"
    by blast
  from peer_medians_raised [OF raised] obtain label where "f label = Inl e" by blast
  with f [of label] show ?thesis
    by (auto split: if_splits sum.splits)
qed

text \<open>Where the quantized median of every list is defined, every pull returns.\<close>

lemma valuation_returns:
  assumes "\<And>vals. vals \<noteq> [] \<Longrightarrow> \<exists>x. median_2 m vals = Inr x"
  shows "\<exists>v. get_valuation_data m tickers = Inr v"
proof (cases "get_valuation_data m tickers")
  case (Inl e)
  from valuation_raised [OF Inl] assms show ?thesis by fastforce
next
  case (Inr v)
  then show ?thesis by blast
qed

text \<open>
  Claim C9 does not hold of \<open>get_valuation_data\<close>. At a market where GS reports an
  infinite price-earnings ratio, the pull for MS, GS, JPM and BAC returns a dictionary
  with the four tickers as long as the four lookups answer (the median of the peer
  ratios is 12). Once the lookup of BAC raises, BAC gets the row of \<open>None\<close>, the median
  of the two remaining peer ratios is infinite, its quantization raises, and the pull
  raises instead of returning: no row is returned, not even those of the three tickers
  whose lookups answered.
\<close>

theorem failed_ticker_aborts_valuation_pull:
  "(\<exists>v. get_valuation_data pe_market [''MS'', ''GS'', ''JPM'', ''BAC''] = Inr v \<and>
        map fst (vd_tickers v) = [''MS'', ''GS'', ''JPM'', ''BAC''] \<and>
        map_of (vd_peer_median v) ''P/E (TTM)'' = Some (Median (Finite 1200))) \<and>
   yf_info pe_market_bac_down ''MS'' = yf_info pe_market ''MS'' \<and>
   yf_info pe_market_bac_down ''GS'' = yf_info pe_market ''GS'' \<and>
   yf_info pe_market_bac_down ''JPM'' = yf_info pe_market ''JPM'' \<and>
   yf_info pe_market_bac_down ''BAC'' = Inl ''timed out'' \<and>
   fetch_ticker pe_market_bac_down ''BAC'' = map (\<lambda>label. (label, None))
     [''Stock Price'', ''P/E (TTM)'', ''Forward P/E'', ''Price/Book'', ''Dividend Yield'',
      ''Market Cap ($B)'', ''52W High'', ''52W Low''] \<and>
   get_valuation_data pe_market_bac_down [''MS'', ''GS'', ''JPM'', ''BAC'']
     = Inl ''[<class 'decimal.InvalidOperation'>]''"
  by (simp add: get_valuation_data_def fetch_ticker_def null_row_def METRICS_def metric_of_def
      pe_market_def pe_market_bac_down_def demo_market_def median_quote_def sorted_quotes_def
      quantize_quote_def Let_def)

section \<open>The orchestrator\<close>

lemma quiet_append [simp]: "quiet (xs @ ys) \<longleftrightarrow> quiet xs \<and> quiet ys"
  by (simp add: quiet_def)

lemma quiet_Nil [simp]: "quiet []"
  by (simp add: quiet_def)

lemma quiet_Cons [simp]: "quiet (x # xs) \<longleftrightarrow> \<not> is_terminal x \<and> quiet xs"
  by (simp add: quiet_def)

lemma ends_with_and_then:
  assumes "quiet (fst g)" and "\<And>a. snd g = Inr a \<Longrightarrow> ends_with t (f a)"
  shows "ends_with t (and_then g f)"
proof (cases "snd g")
  case (Inl e)
  with assms(1) show ?thesis by (simp add: ends_with_def and_then_def)
next
  case (Inr a)
  from assms(2) [OF Inr] assms(1) Inr show ?thesis
    by (auto simp: ends_with_def and_then_def butlast_append split: sum.splits)
qed

lemma bio_group_quiet: "quiet (fst (bio_group w analyst firm memo))"
  by (simp add: bio_group_def Let_def case_prod_beta)

lemma forecast_group_quiet: "quiet (fst (forecast_group w analyst firm memo))"
  by (simp add: forecast_group_def Let_def split: sum.splits)

lemma earnings_group_quiet: "quiet (fst (earnings_group w analyst firm company memo))"
  by (simp add: earnings_group_def Let_def case_prod_beta)

lemma peer_group_quiet: "quiet (fst (peer_group w analyst firm memo))"
  by (simp add: peer_group_def Let_def case_prod_beta)

lemma valuation_group_quiet: "quiet (fst (valuation_group w memo))"
  by (simp add: valuation_group_def Let_def split: sum.splits)

lemma qc_group_quiet: "quiet (fst (qc_group w memo))"
  by (simp add: qc_group_def split: qc_result.splits)

lemma when_selected_quiet:
  "(\<And>m. quiet (fst (grp m))) \<Longrightarrow> quiet (fst (when_selected key selected grp memo))"
  by (simp add: when_selected_def)

lemmas group_quiet =
  when_selected_quiet bio_group_quiet forecast_group_quiet earnings_group_quiet
  peer_group_quiet valuation_group_quiet qc_group_quiet

lemma inner_ends_with_complete:
  "ends_with (Complete (take 8 (w_uuid w)))
     (run_orchestrator_inner w analyst company selected store)"
proof (cases "w_read_firm w analyst")
  case (Inl e)
  then show ?thesis by (simp add: run_orchestrator_inner_def ends_with_def)
next
  case (Inr firm)
  show ?thesis
    unfolding run_orchestrator_inner_def Inr sum.case
    by (intro ends_with_and_then group_quiet) (simp_all add: ends_with_def Let_def)
qed

text \<open>
  Claim C7. The events of one run of \<open>run_orchestrator\<close> are not empty; the last one is
  terminal and no other is, so the stream holds exactly one terminal event: it is
  \<^verbatim>\<open>complete\<close> with the first eight characters of the fresh UUID when the inner
  generator returns, and \<^verbatim>\<open>server_error\<close> with the text of the exception when it
  raises.
\<close>

theorem run_orchestrator_one_terminal:
  "fst (run_orchestrator w analyst company selected store) \<noteq> [] \<and>
   is_terminal (last (fst (run_orchestrator w analyst company selected store))) \<and>
   (\<forall>x \<in> set (butlast (fst (run_orchestrator w analyst company selected store))).
      \<not> is_terminal x) \<and>
   length (filter is_terminal (fst (run_orchestrator w analyst company selected store))) = 1 \<and>
   (case snd (run_orchestrator_inner w analyst company selected store) of
      Inr stored \<Rightarrow> last (fst (run_orchestrator w analyst company selected store))
                      = Complete (take 8 (w_uuid w))
    | Inl e \<Rightarrow> last (fst (run_orchestrator w analyst company selected store))
                  = ServerError (''Orchestrator error: '' @ e))"
proof -
  let ?inner = "run_orchestrator_inner w analyst company selected store"
  let ?events = "fst (run_orchestrator w analyst company selected store)"
  note shape = inner_ends_with_complete [of w analyst company selected store]
  have split: "?events = butlast ?events @ [last ?events] \<and> quiet (butlast ?events) \<and>
      (case snd ?inner of
         Inr stored \<Rightarrow> last ?events = Complete (take 8 (w_uuid w))
       | Inl e \<Rightarrow> last ?events = ServerError (''Orchestrator error: '' @ e))"
  proof (cases "snd ?inner")
    case (Inl e)
    then have ev: "?events = fst ?inner @ [ServerError (''Orchestrator error: '' @ e)]"
      by (simp add: run_orchestrator_def case_prod_beta)
    from shape Inl have "quiet (fst ?inner)" by (simp add: ends_with_def)
    with ev Inl show ?thesis by simp
  next
    case (Inr stored)
    then have ev: "?events = fst ?inner"
      by (simp add: run_orchestrator_def case_prod_beta)
    from shape Inr have ne: "fst ?inner \<noteq> []"
      and l: "last (fst ?inner) = Complete (take 8 (w_uuid w))"
      and q: "quiet (butlast (fst ?inner))" by (simp_all add: ends_with_def)
    from ne have "fst ?inner = butlast (fst ?inner) @ [last (fst ?inner)]" by simp
    with l q Inr show ?thesis unfolding ev by simp
  qed
  then have ne: "?events \<noteq> []" by (metis snoc_eq_iff_butlast)
  from split have fin: "is_terminal (last ?events)"
    by (cases "snd ?inner") auto
  from split have q: "\<forall>x \<in> set (butlast ?events). \<not> is_terminal x"
    by (simp add: quiet_def list_all_iff)
  then have "filter is_terminal (butlast ?events) = []" by (simp add: filter_empty_conv)
  with fin have "filter is_terminal (butlast ?events @ [last ?events]) = [last ?events]"
    by simp
  with split have one: "length (filter is_terminal ?events) = 1" by simp
  from split ne fin q one show ?thesis by blast
qed

theorem run_orchestrator_one_terminal_witness:
  "last (fst (run_orchestrator demo_world ''Mike Mayo'' ''MS'' [''forecast''] Map.empty))
     = Complete ''0123abcd'' \<and>
   length (filter is_terminal
     (fst (run_orchestrator demo_world ''Mike Mayo'' ''MS'' [''forecast''] Map.empty))) = 1 \<and>
   last (fst (run_orchestrator faulty_qc_world ''Mike Mayo'' ''MS'' [''forecast''] Map.empty))
     = ServerError ''Orchestrator error: list object has no attribute get'' \<and>
   length (filter is_terminal
     (fst (run_orchestrator faulty_qc_world ''Mike Mayo'' ''MS'' [''forecast''] Map.empty))) = 1"
proof -
  have finished: "last (fst (run_orchestrator demo_world ''Mike Mayo'' ''MS'' [''forecast''] Map.empty))
     = Complete ''0123abcd''"
    by code_simp
  have failed: "last (fst (run_orchestrator faulty_qc_world ''Mike Mayo'' ''MS'' [''forecast'']
      Map.empty)) = ServerError ''Orchestrator error: list object has no attribute get''"
    by code_simp
  from run_orchestrator_one_terminal [of demo_world "''Mike Mayo''" "''MS''" "[''forecast'']" Map.empty]
  have one: "length (filter is_terminal
     (fst (run_orchestrator demo_world ''Mike Mayo'' ''MS'' [''forecast''] Map.empty))) = 1"
    by (elim conjE)
  from run_orchestrator_one_terminal
    [of faulty_qc_world "''Mike Mayo''" "''MS''" "[''forecast'']" Map.empty]
  have one': "length (filter is_terminal
     (fst (run_orchestrator faulty_qc_world ''Mike Mayo'' ''MS'' [''forecast''] Map.empty))) = 1"
    by (elim conjE)
  from finished one failed one' show ?thesis by blast
qed

lemma and_then_Inr:
  "snd (and_then g f) = Inr b \<Longrightarrow> \<exists>a. snd g = Inr a \<and> snd (f a) = Inr b"
  by (cases "snd g") (simp_all add: and_then_def)

lemma and_then_events:
  "snd g = Inr a \<Longrightarrow> fst (and_then g f) = fst g @ fst (f a)"
  by (simp add: and_then_def)

lemma put_intro: "Inr (put_section key r memo) = Inr memo' \<Longrightarrow> section_put key memo memo'"
  by (auto simp: section_put_def)

lemma bio_group_put:
  "snd (bio_group w analyst firm memo) = Inr memo' \<Longrightarrow> section_put ''bio'' memo memo'"
  unfolding bio_group_def Let_def case_prod_beta snd_conv by (rule put_intro)

lemma forecast_group_put:
  "snd (forecast_group w analyst firm memo) = Inr memo' \<Longrightarrow> section_put ''forecast'' memo memo'"
  unfolding forecast_group_def Let_def
  by (cases "w_read_forecast w analyst") (simp_all only: sum.case snd_conv put_intro)

lemma earnings_group_put:
  "snd (earnings_group w analyst firm company memo) = Inr memo' \<Longrightarrow>
   section_put ''earnings'' memo memo'"
  unfolding earnings_group_def Let_def case_prod_beta
  by (simp only: snd_conv put_intro split: if_splits) simp

lemma peer_group_put:
  "snd (peer_group w analyst firm memo) = Inr memo' \<Longrightarrow> section_put ''peer'' memo memo'"
  unfolding peer_group_def Let_def case_prod_beta snd_conv by (rule put_intro)

lemma valuation_group_put:
  "snd (valuation_group w memo) = Inr memo' \<Longrightarrow> section_put ''valuation'' memo memo'"
  unfolding valuation_group_def Let_def
  by (cases "get_valuation_data (w_market w) ALL_TICKERS")
    (simp_all only: sum.case snd_conv put_intro split: if_splits)

lemma when_selected_put:
  assumes "\<And>m m'. snd (grp m) = Inr m' \<Longrightarrow> section_put key m m'"
    and "snd (when_selected key selected grp memo) = Inr memo'"
  shows "(key \<notin> set selected \<and> memo' = memo) \<or> (key \<in> set selected \<and> section_put key memo memo')"
  using assms by (auto simp: when_selected_def split: if_splits)

lemma qc_group_Inr:
  "snd (qc_group w memo) = Inr memo' \<Longrightarrow>
   memo' = memo\<lparr>memo_quality_check := Some (w_quality_check w (memo_sections memo))\<rparr>"
  by (auto simp: qc_group_def split: qc_result.splits)

lemma section_put_dom:
  "section_put key memo memo' \<Longrightarrow>
   dom (memo_sections memo') = insert key (dom (memo_sections memo)) \<and>
   (\<forall>k. k \<noteq> key \<longrightarrow> memo_sections memo' k = memo_sections memo k) \<and>
   memo_sections memo' key \<noteq> None"
  by (auto simp: section_put_def put_section_def)

text \<open>The memo a run stores: one step per group.\<close>

lemma inner_Inr:
  assumes "snd (run_orchestrator_inner w analyst company selected store) = Inr store'"
  shows "\<exists>firm m1 m2 m3 m4 m5.
     w_read_firm w analyst = Inr firm \<and>
     snd (when_selected ''bio'' selected (bio_group w analyst firm)
            \<lparr>memo_analyst = analyst, memo_firm = firm, memo_company = company,
             memo_date = w_today w, memo_sections = Map.empty, memo_quality_check = None\<rparr>)
       = Inr m1 \<and>
     snd (when_selected ''forecast'' selected (forecast_group w analyst firm) m1) = Inr m2 \<and>
     snd (when_selected ''earnings'' selected (earnings_group w analyst firm company) m2) = Inr m3 \<and>
     snd (when_selected ''peer'' selected (peer_group w analyst firm) m3) = Inr m4 \<and>
     snd (when_selected ''valuation'' selected (valuation_group w) m4) = Inr m5 \<and>
     store' = store(take 8 (w_uuid w) \<mapsto>
                m5\<lparr>memo_quality_check := Some (w_quality_check w (memo_sections m5))\<rparr>)"
proof -
  from assms obtain firm where firm: "w_read_firm w analyst = Inr firm"
    by (cases "w_read_firm w analyst") (auto simp: run_orchestrator_inner_def)
  note a = assms [unfolded run_orchestrator_inner_def firm sum.case]
  from and_then_Inr [OF a] obtain m0 where
    m0: "m0 = \<lparr>memo_analyst = analyst, memo_firm = firm, memo_company = company,
             memo_date = w_today w, memo_sections = Map.empty, memo_quality_check = None\<rparr>"
    and r0: "snd (and_then (when_selected ''bio'' selected (bio_group w analyst firm) m0)
      (\<lambda>memo. and_then
               (when_selected ''forecast'' selected (forecast_group w analyst firm) memo)
            (\<lambda>memo. and_then
               (when_selected ''earnings'' selected
                  (earnings_group w analyst firm company) memo)
            (\<lambda>memo. and_then (when_selected ''peer'' selected (peer_group w analyst firm) memo)
            (\<lambda>memo. and_then (when_selected ''valuation'' selected (valuation_group w) memo)
            (\<lambda>memo. and_then (qc_group w memo)
            (\<lambda>memo. let memo_id = take 8 (w_uuid w)
                     in ([Complete memo_id], Inr (store(memo_id \<mapsto> memo)))))))))) = Inr store'"
    by auto
  from and_then_Inr [OF r0] obtain m1 where
    m1: "snd (when_selected ''bio'' selected (bio_group w analyst firm) m0) = Inr m1"
    and r1: "snd (and_then
               (when_selected ''forecast'' selected (forecast_group w analyst firm) m1)
            (\<lambda>memo. and_then
               (when_selected ''earnings'' selected
                  (earnings_group w analyst firm company) memo)
            (\<lambda>memo. and_then (when_selected ''peer'' selected (peer_group w analyst firm) memo)
            (\<lambda>memo. and_then (when_selected ''valuation'' selected (valuation_group w) memo)
            (\<lambda>memo. and_then (qc_group w memo)
            (\<lambda>memo. let memo_id = take 8 (w_uuid w)
                     in ([Complete memo_id], Inr (store(memo_id \<mapsto> memo))))))))) = Inr store'"
    by auto
  from and_then_Inr [OF r1] obtain m2 where
    m2: "snd (when_selected ''forecast'' selected (forecast_group w analyst firm) m1) = Inr m2"
    and r2: "snd (and_then
               (when_selected ''earnings'' selected
                  (earnings_group w analyst firm company) m2)
            (\<lambda>memo. and_then (when_selected ''peer'' selected (peer_group w analyst firm) memo)
            (\<lambda>memo. and_then (when_selected ''valuation'' selected (valuation_group w) memo)
            (\<lambda>memo. and_then (qc_group w memo)
            (\<lambda>memo. let memo_id = take 8 (w_uuid w)
                     in ([Complete memo_id], Inr (store(memo_id \<mapsto> memo)))))))) = Inr store'"
    by auto
  from and_then_Inr [OF r2] obtain m3 where
    m3: "snd (when_selected ''earnings'' selected (earnings_group w analyst firm company) m2)
           = Inr m3"
    and r3: "snd (and_then (when_selected ''peer'' selected (peer_group w analyst firm) m3)
            (\<lambda>memo. and_then (when_selected ''valuation'' selected (valuation_group w) memo)
            (\<lambda>memo. and_then (qc_group w memo)
            (\<lambda>memo. let memo_id = take 8 (w_uuid w)
                     in ([Complete memo_id], Inr (store(memo_id \<mapsto> memo))))))) = Inr store'"
    by auto
  from and_then_Inr [OF r3] obtain m4 where
    m4: "snd (when_selected ''peer'' selected (peer_group w analyst firm) m3) = Inr m4"
    and r4: "snd (and_then (when_selected ''valuation'' selected (valuation_group w) m4)
            (\<lambda>memo. and_then (qc_group w memo)
            (\<lambda>memo. let memo_id = take 8 (w_uuid w)
                     in ([Complete memo_id], Inr (store(memo_id \<mapsto> memo)))))) = Inr store'"
    by auto
  from and_then_Inr [OF r4] obtain m5 where
    m5: "snd (when_selected ''valuation'' selected (valuation_group w) m4) = Inr m5"
    and r5: "snd (and_then (qc_group w m5)
            (\<lambda>memo. let memo_id = take 8 (w_uuid w)
                     in ([Complete memo_id], Inr (store(memo_id \<mapsto> memo))))) = Inr store'"
    by auto
  from and_then_Inr [OF r5] obtain m6 where
    m6: "snd (qc_group w m5) = Inr m6"
    and r6: "store' = store(take 8 (w_uuid w) \<mapsto> m6)"
    by (auto simp: Let_def)
  from qc_group_Inr [OF m6] r6 firm m1 m2 m3 m4 m5 show ?thesis
    unfolding m0 by blast
qed

lemma when_selected_sections:
  assumes "\<And>m m'. snd (grp m) = Inr m' \<Longrightarrow> section_put key m m'"
    and "snd (when_selected key selected grp memo) = Inr memo'"
  shows "dom (memo_sections memo') = dom (memo_sections memo) \<union> ({key} \<inter> set selected) \<and>
         (\<forall>k. k \<noteq> key \<longrightarrow> memo_sections memo' k = memo_sections memo k) \<and>
         memo_quality_check memo' = memo_quality_check memo"
  using when_selected_put [OF assms]
  by (auto simp: section_put_def put_section_def split: if_splits)

lemma completed_inner:
  assumes "Complete memo_id \<in> set (fst (run_orchestrator w analyst company selected store))"
  shows "memo_id = take 8 (w_uuid w) \<and>
         (\<exists>store'. run_orchestrator_inner w analyst company selected store
                      = (fst (run_orchestrator w analyst company selected store), Inr store') \<and>
                    snd (run_orchestrator w analyst company selected store) = store')"
proof -
  let ?inner = "run_orchestrator_inner w analyst company selected store"
  note shape = inner_ends_with_complete [of w analyst company selected store]
  show ?thesis
  proof (cases "snd ?inner")
    case (Inl e)
    with shape have "quiet (fst ?inner)" by (simp add: ends_with_def)
    moreover from Inl have "fst (run_orchestrator w analyst company selected store)
        = fst ?inner @ [ServerError (''Orchestrator error: '' @ e)]"
      by (simp add: run_orchestrator_def case_prod_beta)
    ultimately have "Complete memo_id \<notin> set (fst (run_orchestrator w analyst company selected store))"
      by (auto simp: quiet_def list_all_iff)
    with assms show ?thesis by simp
  next
    case (Inr store')
    then have ev: "fst (run_orchestrator w analyst company selected store) = fst ?inner"
      and st: "snd (run_orchestrator w analyst company selected store) = store'"
      by (simp_all add: run_orchestrator_def case_prod_beta)
    from shape Inr have ne: "fst ?inner \<noteq> []"
      and l: "last (fst ?inner) = Complete (take 8 (w_uuid w))"
      and q: "quiet (butlast (fst ?inner))" by (simp_all add: ends_with_def)
    from ne have "fst ?inner = butlast (fst ?inner) @ [last (fst ?inner)]" by simp
    then have "set (fst ?inner) = set (butlast (fst ?inner)) \<union> {last (fst ?inner)}"
      by (metis Un_insert_right list.simps(15) set_append sup_bot.right_neutral list.set(1))
    with assms ev q l have "memo_id = take 8 (w_uuid w)"
      by (auto simp: quiet_def list_all_iff)
    moreover have "?inner = (fst (run_orchestrator w analyst company selected store), Inr store')"
      using ev Inr by (simp add: prod_eq_iff)
    ultimately show ?thesis using st by blast
  qed
qed

lemma stored_sections:
  assumes "snd (run_orchestrator_inner w analyst company selected store) = Inr store'"
  shows "\<exists>memo. store' = store(take 8 (w_uuid w) \<mapsto> memo) \<and>
           dom (memo_sections memo) =
             set selected \<inter> {''bio'', ''forecast'', ''earnings'', ''peer'', ''valuation''} \<and>
           memo_quality_check memo = Some (w_quality_check w (memo_sections memo))"
proof -
  from inner_Inr [OF assms] obtain firm m1 m2 m3 m4 m5 where
    s1: "snd (when_selected ''bio'' selected (bio_group w analyst firm)
            \<lparr>memo_analyst = analyst, memo_firm = firm, memo_company = company,
             memo_date = w_today w, memo_sections = Map.empty, memo_quality_check = None\<rparr>)
       = Inr m1"
    and s2: "snd (when_selected ''forecast'' selected (forecast_group w analyst firm) m1) = Inr m2"
    and s3: "snd (when_selected ''earnings'' selected (earnings_group w analyst firm company) m2)
               = Inr m3"
    and s4: "snd (when_selected ''peer'' selected (peer_group w analyst firm) m3) = Inr m4"
    and s5: "snd (when_selected ''valuation'' selected (valuation_group w) m4) = Inr m5"
    and st: "store' = store(take 8 (w_uuid w) \<mapsto>
                m5\<lparr>memo_quality_check := Some (w_quality_check w (memo_sections m5))\<rparr>)"
    by blast
  have d1: "dom (memo_sections m1) = {''bio''} \<inter> set selected"
    using when_selected_sections [OF bio_group_put s1] by simp
  have d2: "dom (memo_sections m2) = dom (memo_sections m1) \<union> ({''forecast''} \<inter> set selected)"
    using when_selected_sections [OF forecast_group_put s2] by simp
  have d3: "dom (memo_sections m3) = dom (memo_sections m2) \<union> ({''earnings''} \<inter> set selected)"
    using when_selected_sections [OF earnings_group_put s3] by simp
  have d4: "dom (memo_sections m4) = dom (memo_sections m3) \<union> ({''peer''} \<inter> set selected)"
    using when_selected_sections [OF peer_group_put s4] by simp
  have d5: "dom (memo_sections m5) = dom (memo_sections m4) \<union> ({''valuation''} \<inter> set selected)"
    using when_selected_sections [OF valuation_group_put s5] by simp
  have "dom (memo_sections m5) =
      set selected \<inter> {''bio'', ''forecast'', ''earnings'', ''peer'', ''valuation''}"
    unfolding d5 d4 d3 d2 d1 by blast
  with st show ?thesis
    by (intro exI [of _ "m5\<lparr>memo_quality_check := Some (w_quality_check w (memo_sections m5))\<rparr>"])
      simp
qed

text \<open>
  Claim C6. When every selected key is one of the five section keys and the run emits
  \<^verbatim>\<open>complete\<close> with an identifier, the store holds a memo under that identifier whose
  section map has exactly the selected keys, and the verdict of the quality check is
  stored in the memo.
\<close>

theorem completed_run_sections:
  assumes "set selected \<subseteq> {''bio'', ''forecast'', ''earnings'', ''peer'', ''valuation''}"
    and "Complete memo_id \<in> set (fst (run_orchestrator w analyst company selected store))"
  shows "\<exists>memo. snd (run_orchestrator w analyst company selected store) memo_id = Some memo \<and>
           dom (memo_sections memo) = set selected \<and>
           memo_quality_check memo = Some (w_quality_check w (memo_sections memo))"
proof -
  from completed_inner [OF assms(2)] obtain store' where
    id: "memo_id = take 8 (w_uuid w)"
    and inner: "snd (run_orchestrator_inner w analyst company selected store) = Inr store'"
    and st: "snd (run_orchestrator w analyst company selected store) = store'"
    by (metis snd_conv)
  from stored_sections [OF inner] obtain memo where
    "store' = store(take 8 (w_uuid w) \<mapsto> memo)"
    and "dom (memo_sections memo) =
             set selected \<inter> {''bio'', ''forecast'', ''earnings'', ''peer'', ''valuation''}"
    and "memo_quality_check memo = Some (w_quality_check w (memo_sections memo))"
    by blast
  with assms(1) id st show ?thesis by (auto simp: Int_absorb2)
qed

theorem completed_run_sections_witness:
  "set [''forecast''] \<subseteq> {''bio'', ''forecast'', ''earnings'', ''peer'', ''valuation''} \<and>
   Complete ''0123abcd''
     \<in> set (fst (run_orchestrator demo_world ''Mike Mayo'' ''MS'' [''forecast''] Map.empty)) \<and>
   (\<exists>memo. snd (run_orchestrator demo_world ''Mike Mayo'' ''MS'' [''forecast''] Map.empty)
              ''0123abcd'' = Some memo \<and>
           dom (memo_sections memo) = set [''forecast''] \<and>
           memo_quality_check memo = Some (w_quality_check demo_world (memo_sections memo)))"
proof -
  have sel: "set [''forecast''] \<subseteq> {''bio'', ''forecast'', ''earnings'', ''peer'', ''valuation''}"
    by simp
  have fin: "Complete ''0123abcd''
     \<in> set (fst (run_orchestrator demo_world ''Mike Mayo'' ''MS'' [''forecast''] Map.empty))"
    by code_simp
  from completed_run_sections [OF sel fin] sel fin show ?thesis by blast
qed

lemma returns_then_completes:
  assumes "snd (run_orchestrator_inner w analyst company selected store) = Inr store'"
  shows "Complete (take 8 (w_uuid w))
           \<in> set (fst (run_orchestrator w analyst company selected store))"
proof -
  let ?inner = "run_orchestrator_inner w analyst company selected store"
  from inner_ends_with_complete [of w analyst company selected store] assms
  have "fst ?inner \<noteq> []" and "last (fst ?inner) = Complete (take 8 (w_uuid w))"
    by (simp_all add: ends_with_def)
  then have "Complete (take 8 (w_uuid w)) \<in> set (fst ?inner)"
    by (metis last_in_set)
  moreover from assms have "fst (run_orchestrator w analyst company selected store) = fst ?inner"
    by (simp add: run_orchestrator_def case_prod_beta)
  ultimately show ?thesis by simp
qed

lemma snd_and_then:
  "snd (and_then g f) = (case snd g of Inl e \<Rightarrow> Inl e | Inr a \<Rightarrow> snd (f a))"
  by (simp add: and_then_def split: sum.splits)

lemma generate_section_name [simp]: "fst (generate_section w name template ctx instruction) = name"
  by (simp add: generate_section_def split: sum.splits)

lemma earnings_group_exhausted:
  assumes "get_transcript (w_transcripts w) company ''Morgan Stanley'' = all_tiers_failed"
  shows "snd (earnings_group w analyst firm company memo) =
     Inr (put_section ''earnings''
            (Narrative ''earnings''
               (fst (snd (generate_section w ''earnings'' ''earnings_feedback''
                  (EarningsContext analyst firm (take 15000 unavailable_text)) '''')))
               (snd (snd (generate_section w ''earnings'' ''earnings_feedback''
                  (EarningsContext analyst firm (take 15000 unavailable_text)) '''')))
               [] (confidence_of ''low'' ''Transcript not available''))
            memo)"
  unfolding earnings_group_def assms
  by (simp add: all_tiers_failed_def Let_def case_prod_beta)

lemma stored_earnings:
  assumes inner: "snd (run_orchestrator_inner w analyst company selected store) = Inr store'"
    and sel: "''earnings'' \<in> set selected"
    and grp: "\<And>firm memo. snd (earnings_group w analyst firm company memo)
                = Inr (put_section ''earnings'' (r firm) memo)"
  shows "\<exists>memo firm. store' (take 8 (w_uuid w)) = Some memo \<and>
           memo_sections memo ''earnings'' = Some (r firm)"
proof -
  from inner_Inr [OF inner] obtain firm m1 m2 m3 m4 m5 where
    s3: "snd (when_selected ''earnings'' selected (earnings_group w analyst firm company) m2)
               = Inr m3"
    and s4: "snd (when_selected ''peer'' selected (peer_group w analyst firm) m3) = Inr m4"
    and s5: "snd (when_selected ''valuation'' selected (valuation_group w) m4) = Inr m5"
    and st: "store' = store(take 8 (w_uuid w) \<mapsto>
                m5\<lparr>memo_quality_check := Some (w_quality_check w (memo_sections m5))\<rparr>)"
    by blast
  from s3 sel grp [of firm m2] have "m3 = put_section ''earnings'' (r firm) m2"
    by (simp add: when_selected_def)
  then have e3: "memo_sections m3 ''earnings'' = Some (r firm)"
    by (simp add: put_section_def)
  from when_selected_sections [OF peer_group_put s4] e3
  have e4: "memo_sections m4 ''earnings'' = Some (r firm)" by simp
  from when_selected_sections [OF valuation_group_put s5] e4
  have e5: "memo_sections m5 ''earnings'' = Some (r firm)" by simp
  with st show ?thesis by auto
qed

text \<open>
  Claim C2. When every tier attempt of the transcript chain fails, \<open>get_transcript\<close>
  returns the result with status error, empty text, tier 0 and the message that the
  transcript is not available; the earnings group of a run then ends normally, with a
  narrative section of confidence low and no sources; and a run with the earnings
  section selected that completes has stored that section.
\<close>

theorem exhausted_chain_low_confidence:
  assumes "\<forall>t \<in> {1..5}. \<not> succeeds (w_transcripts w) company ''Morgan Stanley'' t"
  shows "get_transcript (w_transcripts w) company ''Morgan Stanley'' =
           \<lparr>tr_status = ''error'', tr_text = '''', tr_source = ''none'', tr_source_url = '''',
            tr_tier = 0,
            tr_error = Some ''[Earnings call transcript not available from public sources]''\<rparr> \<and>
         (\<exists>content status.
            snd (earnings_group w analyst firm company memo) =
              Inr (put_section ''earnings''
                     (Narrative ''earnings'' content status []
                        (confidence_of ''low'' ''Transcript not available''))
                     memo)) \<and>
         (\<forall>memo_id.
            ''earnings'' \<in> set selected \<and>
            Complete memo_id \<in> set (fst (run_orchestrator w analyst company selected store))
            \<longrightarrow>
            (\<exists>stored content status.
               snd (run_orchestrator w analyst company selected store) memo_id = Some stored \<and>
               memo_sections stored ''earnings'' =
                 Some (Narrative ''earnings'' content status []
                         (confidence_of ''low'' ''Transcript not available''))))"
proof -
  from exhausted_chain [OF assms]
  have failed: "get_transcript (w_transcripts w) company ''Morgan Stanley'' = all_tiers_failed"
    by blast
  then have a: "get_transcript (w_transcripts w) company ''Morgan Stanley'' =
           \<lparr>tr_status = ''error'', tr_text = '''', tr_source = ''none'', tr_source_url = '''',
            tr_tier = 0,
            tr_error = Some ''[Earnings call transcript not available from public sources]''\<rparr>"
    by (simp add: all_tiers_failed_def)
  note grp = earnings_group_exhausted [OF failed]
  have b: "\<exists>content status.
            snd (earnings_group w analyst firm company memo) =
              Inr (put_section ''earnings''
                     (Narrative ''earnings'' content status []
                        (confidence_of ''low'' ''Transcript not available''))
                     memo)"
    using grp [of analyst firm memo] by blast
  have c: "\<forall>memo_id.
            ''earnings'' \<in> set selected \<and>
            Complete memo_id \<in> set (fst (run_orchestrator w analyst company selected store))
            \<longrightarrow>
            (\<exists>stored content status.
               snd (run_orchestrator w analyst company selected store) memo_id = Some stored \<and>
               memo_sections stored ''earnings'' =
                 Some (Narrative ''earnings'' content status []
                         (confidence_of ''low'' ''Transcript not available'')))"
  proof (intro allI impI, elim conjE)
    fix memo_id
    assume sel: "''earnings'' \<in> set selected"
      and fin: "Complete memo_id \<in> set (fst (run_orchestrator w analyst company selected store))"
    from completed_inner [OF fin] obtain store' where
      id: "memo_id = take 8 (w_uuid w)"
      and inner: "snd (run_orchestrator_inner w analyst company selected store) = Inr store'"
      and st: "snd (run_orchestrator w analyst company selected store) = store'"
      by (metis snd_conv)
    from stored_earnings [OF inner sel, where r = "\<lambda>firm. Narrative ''earnings''
               (fst (snd (generate_section w ''earnings'' ''earnings_feedback''
                  (EarningsContext analyst firm (take 15000 unavailable_text)) '''')))
               (snd (snd (generate_section w ''earnings'' ''earnings_feedback''
                  (EarningsContext analyst firm (take 15000 unavailable_text)) '''')))
               [] (confidence_of ''low'' ''Transcript not available'')"] grp
    obtain stored firm' where "store' (take 8 (w_uuid w)) = Some stored"
      and "memo_sections stored ''earnings'' = Some (Narrative ''earnings''
               (fst (snd (generate_section w ''earnings'' ''earnings_feedback''
                  (EarningsContext analyst firm' (take 15000 unavailable_text)) '''')))
               (snd (snd (generate_section w ''earnings'' ''earnings_feedback''
                  (EarningsContext analyst firm' (take 15000 unavailable_text)) '''')))
               [] (confidence_of ''low'' ''Transcript not available''))"
      by blast
    with id st show "\<exists>stored content status.
               snd (run_orchestrator w analyst company selected store) memo_id = Some stored \<and>
               memo_sections stored ''earnings'' =
                 Some (Narrative ''earnings'' content status []
                         (confidence_of ''low'' ''Transcript not available''))"
      by blast
  qed
  from a b c show ?thesis by blast
qed

theorem exhausted_chain_low_confidence_witness:
  "\<not> succeeds (w_transcripts demo_world) ''MS'' ''Morgan Stanley'' 1 \<and>
   \<not> succeeds (w_transcripts demo_world) ''MS'' ''Morgan Stanley'' 2 \<and>
   \<not> succeeds (w_transcripts demo_world) ''MS'' ''Morgan Stanley'' 3 \<and>
   \<not> succeeds (w_transcripts demo_world) ''MS'' ''Morgan Stanley'' 4 \<and>
   \<not> succeeds (w_transcripts demo_world) ''MS'' ''Morgan Stanley'' 5 \<and>
   tr_tier (get_transcript (w_transcripts demo_world) ''MS'' ''Morgan Stanley'') = 0 \<and>
   Complete ''0123abcd''
     \<in> set (fst (run_orchestrator demo_world ''Mike Mayo'' ''MS'' [''earnings''] Map.empty)) \<and>
   (\<exists>stored content status.
      snd (run_orchestrator demo_world ''Mike Mayo'' ''MS'' [''earnings''] Map.empty) ''0123abcd''
        = Some stored \<and>
      memo_sections stored ''earnings'' =
        Some (Narrative ''earnings'' content status []
                (confidence_of ''low'' ''Transcript not available'')))"
proof -
  have each: "\<not> succeeds (w_transcripts demo_world) ''MS'' ''Morgan Stanley'' 1"
    "\<not> succeeds (w_transcripts demo_world) ''MS'' ''Morgan Stanley'' 2"
    "\<not> succeeds (w_transcripts demo_world) ''MS'' ''Morgan Stanley'' 3"
    "\<not> succeeds (w_transcripts demo_world) ''MS'' ''Morgan Stanley'' 4"
    "\<not> succeeds (w_transcripts demo_world) ''MS'' ''Morgan Stanley'' 5"
    by (simp_all add: succeeds_def tier_outcome_def is_attempt_def demo_world_def
        silent_env_def COMPANY_CIKS_def)
  then have none: "\<forall>t \<in> {1..5}. \<not> succeeds (w_transcripts demo_world) ''MS'' ''Morgan Stanley'' t"
    unfolding interval_1_5 by simp
  have sel: "''earnings'' \<in> set [''earnings'']" by simp
  from exhausted_chain [OF none]
  have failed: "get_transcript (w_transcripts demo_world) ''MS'' ''Morgan Stanley''
      = all_tiers_failed" by blast
  have firm: "w_read_firm demo_world ''Mike Mayo'' = Inr ''Wells Fargo''"
    and qc: "\<And>s. w_quality_check demo_world s = QcReport (Some ''pass'') (Some ''ok'')"
    and id: "take 8 (w_uuid demo_world) = ''0123abcd''"
    by (simp_all add: demo_world_def)
  have "\<exists>st. snd (run_orchestrator_inner demo_world ''Mike Mayo'' ''MS'' [''earnings''] Map.empty)
      = Inr st"
    unfolding run_orchestrator_inner_def
    by (simp add: firm qc snd_and_then when_selected_def earnings_group_exhausted [OF failed]
        qc_group_def Let_def)
  then obtain st where "snd (run_orchestrator_inner demo_world ''Mike Mayo'' ''MS'' [''earnings'']
      Map.empty) = Inr st" ..
  from returns_then_completes [OF this] id
  have fin: "Complete ''0123abcd''
     \<in> set (fst (run_orchestrator demo_world ''Mike Mayo'' ''MS'' [''earnings''] Map.empty))"
    by simp
  note r = exhausted_chain_low_confidence [OF none, of "''Mike Mayo''" "''Wells Fargo''"
      _ "[''earnings'']" Map.empty]
  from r have "get_transcript (w_transcripts demo_world) ''MS'' ''Morgan Stanley'' =
           \<lparr>tr_status = ''error'', tr_text = [], tr_source = ''none'', tr_source_url = [],
            tr_tier = 0,
            tr_error = Some ''[Earnings call transcript not available from public sources]''\<rparr>"
    by (rule conjunct1)
  then have tier: "tr_tier (get_transcript (w_transcripts demo_world) ''MS'' ''Morgan Stanley'') = 0"
    by simp
  from r sel fin have stored: "\<exists>stored content status.
      snd (run_orchestrator demo_world ''Mike Mayo'' ''MS'' [''earnings''] Map.empty) ''0123abcd''
        = Some stored \<and>
      memo_sections stored ''earnings'' =
        Some (Narrative ''earnings'' content status []
                (confidence_of ''low'' ''Transcript not available''))"
    by blast
  from each tier fin stored show ?thesis by blast
qed

section \<open>Regeneration\<close>

text \<open>
  Claim C4, as amended. In a draft-only regeneration of a narrative section (bio,
  earnings or peer) of a stored memo, the content submitted for editing is the
  request's \<^verbatim>\<open>current_content\<close> when that is not empty and the stored content
  otherwise. When it is not empty and the drafting leaf fails, the request stores the
  section with exactly that content, the status error and the sources and confidence
  it had before; every other section, every other field of the memo and every other
  memo stay as they were; and the client receives \<^verbatim>\<open>regen_start\<close>, \<^verbatim>\<open>regen_step\<close>,
  \<^verbatim>\<open>regen_section\<close> with that content and \<^verbatim>\<open>regen_complete\<close>. So the stored
  content is the one from before the request whenever the request brings no content
  of its own or brings the stored one.
\<close>

theorem draft_only_failure_keeps_submitted_content:
  assumes "section_key \<in> {''bio'', ''earnings'', ''peer''}"
    and "memo_store memo_id = Some memo"
    and "content_to_edit =
           (if current_content \<noteq> [] then current_content
            else content_of (memo_sections memo section_key))"
    and "content_to_edit \<noteq> []"
    and "w_edit w section_key content_to_edit instruction = Inl e"
  shows "run_regeneration w section_key analyst instruction False memo_store memo_id
           current_content =
         ([RegenStart section_key,
           RegenStep section_key ''Applying changes with Claude'',
           RegenSection section_key content_to_edit
             (sources_of (memo_sections memo section_key))
             (confidence_or (memo_sections memo section_key)
                (confidence_of ''medium'' ''Edited section'')),
           RegenComplete section_key],
          memo_store(memo_id \<mapsto>
            memo\<lparr>memo_sections := (memo_sections memo)(section_key \<mapsto>
              Narrative section_key content_to_edit ''error''
                (sources_of (memo_sections memo section_key))
                (confidence_or (memo_sections memo section_key)
                   (confidence_of ''medium'' ''Edited section'')))\<rparr>),
          [CallEditSection section_key]) \<and>
         ((current_content = [] \<or> current_content = content_of (memo_sections memo section_key))
            \<longrightarrow> content_to_edit = content_of (memo_sections memo section_key))"
proof -
  from assms(1) have narrative: "section_key \<in> set [''bio'', ''earnings'', ''peer'']" by simp
  have edit: "edit_section w section_key content_to_edit instruction
      = (section_key, content_to_edit, ''error'')"
    by (simp add: edit_section_def assms(5))
  have branch: "draft_only w section_key instruction current_content memo_store memo_id memo =
      ([RegenStep section_key ''Applying changes with Claude'',
        RegenSection section_key content_to_edit
          (sources_of (memo_sections memo section_key))
          (confidence_or (memo_sections memo section_key)
             (confidence_of ''medium'' ''Edited section''))],
       store_section memo_store memo_id memo section_key
         (Narrative section_key content_to_edit ''error''
            (sources_of (memo_sections memo section_key))
            (confidence_or (memo_sections memo section_key)
               (confidence_of ''medium'' ''Edited section''))),
       [CallEditSection section_key], True)"
    unfolding draft_only_def draft_only_narrative_def
    using narrative assms(3) [symmetric] assms(4) by (simp add: Let_def edit)
  have run: "run_regeneration w section_key analyst instruction False memo_store memo_id
           current_content =
         ([RegenStart section_key,
           RegenStep section_key ''Applying changes with Claude'',
           RegenSection section_key content_to_edit
             (sources_of (memo_sections memo section_key))
             (confidence_or (memo_sections memo section_key)
                (confidence_of ''medium'' ''Edited section'')),
           RegenComplete section_key],
          memo_store(memo_id \<mapsto>
            memo\<lparr>memo_sections := (memo_sections memo)(section_key \<mapsto>
              Narrative section_key content_to_edit ''error''
                (sources_of (memo_sections memo section_key))
                (confidence_or (memo_sections memo section_key)
                   (confidence_of ''medium'' ''Edited section'')))\<rparr>),
          [CallEditSection section_key])"
    unfolding run_regeneration_def assms(2) option.case
    by (simp add: branch store_section_def put_section_def)
  from assms(3) have same: "(current_content = [] \<or>
        current_content = content_of (memo_sections memo section_key))
      \<longrightarrow> content_to_edit = content_of (memo_sections memo section_key)"
    by auto
  from run same show ?thesis by blast
qed

lemma demo_bio: "memo_sections demo_memo ''bio''
    = Some (Narrative ''bio'' ''Stored bio.'' ''success'' [] (confidence_of ''high'' ''3 sources found''))"
  by (simp add: demo_memo_def)

theorem draft_only_failure_keeps_submitted_content_witness:
  "''bio'' \<in> {''bio'', ''earnings'', ''peer''} \<and>
   demo_store ''m1'' = Some demo_memo \<and>
   content_of (memo_sections demo_memo ''bio'') = ''Stored bio.'' \<and>
   w_edit demo_world ''bio'' ''Stored bio.'' ''Shorten it'' = Inl ''service unavailable'' \<and>
   run_regeneration demo_world ''bio'' ''Mike Mayo'' ''Shorten it'' False demo_store ''m1'' [] =
     ([RegenStart ''bio'',
       RegenStep ''bio'' ''Applying changes with Claude'',
       RegenSection ''bio'' ''Stored bio.'' [] (confidence_of ''high'' ''3 sources found''),
       RegenComplete ''bio''],
      demo_store(''m1'' \<mapsto>
        demo_memo\<lparr>memo_sections := (memo_sections demo_memo)(''bio'' \<mapsto>
          Narrative ''bio'' ''Stored bio.'' ''error'' []
            (confidence_of ''high'' ''3 sources found''))\<rparr>),
      [CallEditSection ''bio''])"
proof -
  have key: "''bio'' \<in> {''bio'', ''earnings'', ''peer''}" by simp
  have st: "demo_store ''m1'' = Some demo_memo" by (simp add: demo_store_def)
  have old: "content_of (memo_sections demo_memo ''bio'') = ''Stored bio.''"
    by (simp add: demo_bio)
  have c: "''Stored bio.'' = (if ([]::string) \<noteq> [] then []
      else content_of (memo_sections demo_memo ''bio''))"
    by (simp add: demo_bio)
  have ne: "''Stored bio.'' \<noteq> []" by simp
  have fails: "w_edit demo_world ''bio'' ''Stored bio.'' ''Shorten it'' = Inl ''service unavailable''"
    by (simp add: demo_world_def)
  from draft_only_failure_keeps_submitted_content
    [where memo_store = demo_store and memo_id = "''m1''" and memo = demo_memo
       and current_content = "[]" and analyst = "''Mike Mayo''", OF key st c ne fails]
  have "run_regeneration demo_world ''bio'' ''Mike Mayo'' ''Shorten it'' False demo_store ''m1'' [] =
     ([RegenStart ''bio'',
       RegenStep ''bio'' ''Applying changes with Claude'',
       RegenSection ''bio'' ''Stored bio.'' [] (confidence_of ''high'' ''3 sources found''),
       RegenComplete ''bio''],
      demo_store(''m1'' \<mapsto>
        demo_memo\<lparr>memo_sections := (memo_sections demo_memo)(''bio'' \<mapsto>
          Narrative ''bio'' ''Stored bio.'' ''error'' []
            (confidence_of ''high'' ''3 sources found''))\<rparr>),
      [CallEditSection ''bio''])"
    by (simp add: demo_bio)
  with key st old fails show ?thesis by blast
qed

text \<open>
  The claim as first stated fails when the request brings its own content: the leaf
  fails, the stored content changes to the request's text, and the stream ends with
  \<^verbatim>\<open>regen_complete\<close>, no error event in it.
\<close>

theorem draft_only_failure_counterexample:
  "map_option (\<lambda>m. content_of (memo_sections m ''bio'')) (demo_store ''m1'') = Some ''Stored bio.'' \<and>
   w_edit demo_world ''bio'' ''Text in the editor.'' ''Shorten it'' = Inl ''service unavailable'' \<and>
   fst (run_regeneration demo_world ''bio'' ''Mike Mayo'' ''Shorten it'' False demo_store ''m1''
          ''Text in the editor.'') =
     [RegenStart ''bio'',
      RegenStep ''bio'' ''Applying changes with Claude'',
      RegenSection ''bio'' ''Text in the editor.'' [] (confidence_of ''high'' ''3 sources found''),
      RegenComplete ''bio''] \<and>
   map_option (\<lambda>m. content_of (memo_sections m ''bio''))
     (fst (snd (run_regeneration demo_world ''bio'' ''Mike Mayo'' ''Shorten it'' False demo_store
                  ''m1'' ''Text in the editor.'')) ''m1'')
     = Some ''Text in the editor.'' \<and>
   ''Text in the editor.'' \<noteq> ''Stored bio.''"
  by (simp add: run_regeneration_def draft_only_def draft_only_narrative_def edit_section_def
      store_section_def put_section_def demo_store_def demo_bio demo_world_def Let_def)

lemma section_after_store_section [simp]:
  "section_after (store_section s memo_id m key r) memo_id key = Some r"
  by (simp add: section_after_def store_section_def put_section_def)

lemmas re_search_defs =
  re_search_def re_search_bio_def re_search_forecast_def re_search_earnings_def
  re_search_peer_def re_search_valuation_def

text \<open>A branch of the re-search mode that finishes has assigned the section of its key.\<close>

lemma re_search_finished:
  assumes "re_search w k a i s memo_id m = (evs, st, calls, True)"
  shows "\<exists>r. st = store_section s memo_id m k r"
proof -
  consider "k = ''bio''" | "k = ''forecast''" | "k = ''earnings''" | "k = ''peer''"
    | "k = ''valuation''"
    | "k \<noteq> ''bio''" "k \<noteq> ''forecast''" "k \<noteq> ''earnings''" "k \<noteq> ''peer''" "k \<noteq> ''valuation''"
    by blast
  then show ?thesis
  proof cases
    case 1
    with assms show ?thesis
      by (simp add: re_search_def re_search_bio_def Let_def case_prod_beta) blast
  next
    case 2
    with assms show ?thesis
      by (cases "w_read_forecast w a")
        (auto simp: re_search_def re_search_forecast_def Let_def)
  next
    case 3
    with assms show ?thesis
      by (simp add: re_search_def re_search_earnings_def Let_def case_prod_beta) blast
  next
    case 4
    with assms show ?thesis
      by (simp add: re_search_def re_search_peer_def Let_def case_prod_beta) blast
  next
    case 5
    with assms show ?thesis
      by (cases "get_valuation_data (w_market w)
                   (parse_ticker_changes i (existing_tickers_of (memo_sections m ''valuation'')))")
        (auto simp: re_search_def re_search_valuation_def Let_def split: if_splits)
  next
    case 6
    with assms show ?thesis by (simp add: re_search_def)
  qed
qed

lemma re_search_no_complete:
  "RegenComplete k' \<notin> set (fst (re_search w k a i s memo_id m))"
proof -
  consider "k = ''bio''" | "k = ''forecast''" | "k = ''earnings''" | "k = ''peer''"
    | "k = ''valuation''"
    | "k \<noteq> ''bio''" "k \<noteq> ''forecast''" "k \<noteq> ''earnings''" "k \<noteq> ''peer''" "k \<noteq> ''valuation''"
    by blast
  then show ?thesis
  proof cases
    case 1
    then show ?thesis
      by (simp add: re_search_def re_search_bio_def Let_def case_prod_beta)
  next
    case 2
    then show ?thesis
      by (cases "w_read_forecast w a")
        (simp_all add: re_search_def re_search_forecast_def Let_def)
  next
    case 3
    then show ?thesis
      by (simp add: re_search_def re_search_earnings_def Let_def case_prod_beta)
  next
    case 4
    then show ?thesis
      by (simp add: re_search_def re_search_peer_def Let_def case_prod_beta)
  next
    case 5
    then show ?thesis
      by (simp add: re_search_def re_search_valuation_def Let_def split: sum.splits)
  next
    case 6
    then show ?thesis by (simp add: re_search_def)
  qed
qed

text \<open>
  What a re-search branch computes depends on the memo only through the firm and,
  for the valuation, the stored ticker list.
\<close>

lemma re_search_independent:
  assumes firm: "memo_firm m2 = memo_firm m1"
    and tick: "k = ''valuation'' \<longrightarrow>
      existing_tickers_of (memo_sections m2 k) = existing_tickers_of (memo_sections m1 k)"
  shows "fst (re_search w k a i s2 memo_id m2) = fst (re_search w k a i s1 memo_id m1) \<and>
         snd (snd (re_search w k a i s2 memo_id m2)) = snd (snd (re_search w k a i s1 memo_id m1)) \<and>
         (snd (snd (snd (re_search w k a i s1 memo_id m1))) \<longrightarrow>
            section_after (fst (snd (re_search w k a i s2 memo_id m2))) memo_id k
              = section_after (fst (snd (re_search w k a i s1 memo_id m1))) memo_id k)"
proof -
  consider "k = ''bio''" | "k = ''forecast''" | "k = ''earnings''" | "k = ''peer''"
    | "k = ''valuation''"
    | "k \<noteq> ''bio''" "k \<noteq> ''forecast''" "k \<noteq> ''earnings''" "k \<noteq> ''peer''" "k \<noteq> ''valuation''"
    by blast
  then show ?thesis
  proof cases
    case 1
    then show ?thesis
      by (simp add: re_search_def re_search_bio_def Let_def case_prod_beta firm)
  next
    case 2
    then show ?thesis
      by (cases "w_read_forecast w a")
        (simp_all add: re_search_def re_search_forecast_def Let_def firm)
  next
    case 3
    then show ?thesis
      by (simp add: re_search_def re_search_earnings_def Let_def case_prod_beta firm)
  next
    case 4
    then show ?thesis
      by (simp add: re_search_def re_search_peer_def Let_def case_prod_beta firm)
  next
    case 5
    with tick show ?thesis
      by (simp add: re_search_def re_search_valuation_def Let_def split: sum.splits)
  next
    case 6
    then show ?thesis by (simp add: re_search_def)
  qed
qed

text \<open>
  Claim C5. When a re-search regeneration of a section of a stored memo emits
  \<^verbatim>\<open>regen_complete\<close>, the store differs from the one before only in the record of
  that section of that memo; and the new record is the same whatever record, or none,
  stood there before (for the valuation: whatever record with the same ticker list),
  so nothing of the old record, its sources and confidence included, is carried over.
\<close>

theorem re_search_replaces_section:
  fixes w :: "'v world"
  assumes stored_memo: "memo_store memo_id = Some memo"
    and run: "run_regeneration w section_key analyst instruction True memo_store memo_id
                current_content = (events, stored, calls)"
    and finished: "RegenComplete section_key \<in> set events"
  shows "(\<exists>r. stored = memo_store(memo_id \<mapsto>
                 memo\<lparr>memo_sections := (memo_sections memo)(section_key \<mapsto> r)\<rparr>)) \<and>
         (\<forall>old.
            (section_key = ''valuation'' \<longrightarrow>
               existing_tickers_of old = existing_tickers_of (memo_sections memo section_key))
            \<longrightarrow>
            section_after
              (fst (snd (run_regeneration w section_key analyst instruction True
                 (memo_store(memo_id \<mapsto>
                    memo\<lparr>memo_sections := (memo_sections memo)(section_key := old)\<rparr>))
                 memo_id current_content)))
              memo_id section_key
            = section_after stored memo_id section_key)"
proof -
  obtain evs st cs fin where
    branch: "re_search w section_key analyst instruction memo_store memo_id memo
      = (evs, st, cs, fin)"
    by (cases "re_search w section_key analyst instruction memo_store memo_id memo") auto
  from run have ev: "events = RegenStart section_key # evs
        @ (if fin then [RegenComplete section_key] else [])"
    and st: "stored = st"
    by (simp_all add: run_regeneration_def stored_memo branch)
  from re_search_no_complete [of section_key w section_key analyst instruction memo_store
      memo_id memo] branch
  have "RegenComplete section_key \<notin> set evs" by simp
  with finished ev have fin: "fin" by (auto split: if_splits)
  from re_search_finished [OF branch [unfolded fin [THEN eqTrueI]]] st
  obtain r where r: "stored = store_section memo_store memo_id memo section_key r" by blast
  then have frame: "\<exists>r. stored = memo_store(memo_id \<mapsto>
                 memo\<lparr>memo_sections := (memo_sections memo)(section_key \<mapsto> r)\<rparr>)"
    by (auto simp: store_section_def put_section_def)
  have indep: "\<forall>old.
            (section_key = ''valuation'' \<longrightarrow>
               existing_tickers_of old = existing_tickers_of (memo_sections memo section_key))
            \<longrightarrow>
            section_after
              (fst (snd (run_regeneration w section_key analyst instruction True
                 (memo_store(memo_id \<mapsto>
                    memo\<lparr>memo_sections := (memo_sections memo)(section_key := old)\<rparr>))
                 memo_id current_content)))
              memo_id section_key
            = section_after stored memo_id section_key"
  proof (intro allI impI)
    fix old :: "'v section_record option"
    assume t: "section_key = ''valuation'' \<longrightarrow>
               existing_tickers_of old = existing_tickers_of (memo_sections memo section_key)"
    let ?m2 = "memo\<lparr>memo_sections := (memo_sections memo)(section_key := old)\<rparr>"
    let ?s2 = "memo_store(memo_id \<mapsto> ?m2)"
    have "memo_firm ?m2 = memo_firm memo" by simp
    moreover from t have "section_key = ''valuation'' \<longrightarrow>
      existing_tickers_of (memo_sections ?m2 section_key)
        = existing_tickers_of (memo_sections memo section_key)" by simp
    ultimately have "section_after
        (fst (snd (re_search w section_key analyst instruction ?s2 memo_id ?m2))) memo_id section_key
      = section_after
        (fst (snd (re_search w section_key analyst instruction memo_store memo_id memo)))
        memo_id section_key"
      using re_search_independent [of ?m2 memo section_key w analyst instruction ?s2 memo_id
          memo_store] branch fin by simp
    then show "section_after
              (fst (snd (run_regeneration w section_key analyst instruction True ?s2
                 memo_id current_content)))
              memo_id section_key
            = section_after stored memo_id section_key"
      by (simp add: run_regeneration_def case_prod_beta branch st)
  qed
  from frame indep show ?thesis by blast
qed

theorem re_search_replaces_section_witness:
  "demo_store ''m1'' = Some demo_memo \<and>
   RegenComplete ''bio''
     \<in> set (fst (run_regeneration demo_world ''bio'' ''Mike Mayo'' ''Add detail'' True
                   demo_store ''m1'' [])) \<and>
   (\<exists>r. fst (snd (run_regeneration demo_world ''bio'' ''Mike Mayo'' ''Add detail'' True
                     demo_store ''m1'' []))
         = demo_store(''m1'' \<mapsto>
             demo_memo\<lparr>memo_sections := (memo_sections demo_memo)(''bio'' \<mapsto> r)\<rparr>)) \<and>
   section_after
     (fst (snd (run_regeneration demo_world ''bio'' ''Mike Mayo'' ''Add detail'' True
        (demo_store(''m1'' \<mapsto>
           demo_memo\<lparr>memo_sections := (memo_sections demo_memo)(''bio'' := None)\<rparr>))
        ''m1'' [])))
     ''m1'' ''bio''
   = section_after
       (fst (snd (run_regeneration demo_world ''bio'' ''Mike Mayo'' ''Add detail'' True
                    demo_store ''m1'' [])))
       ''m1'' ''bio''"
proof -
  let ?run = "run_regeneration demo_world ''bio'' ''Mike Mayo'' ''Add detail'' True
                demo_store ''m1'' []"
  have st: "demo_store ''m1'' = Some demo_memo" by (simp add: demo_store_def)
  have run: "?run = (fst ?run, fst (snd ?run), snd (snd ?run))" by simp
  have fin: "RegenComplete ''bio'' \<in> set (fst ?run)"
    by (simp add: run_regeneration_def st re_search_def re_search_bio_def Let_def case_prod_beta)
  note r = re_search_replaces_section
    [where memo_store = demo_store and memo_id = "''m1''" and memo = demo_memo, OF st run fin]
  from r have frame: "\<exists>r. fst (snd ?run)
         = demo_store(''m1'' \<mapsto>
             demo_memo\<lparr>memo_sections := (memo_sections demo_memo)(''bio'' \<mapsto> r)\<rparr>)"
    by (rule conjunct1)
  from r have "section_after
     (fst (snd (run_regeneration demo_world ''bio'' ''Mike Mayo'' ''Add detail'' True
        (demo_store(''m1'' \<mapsto>
           demo_memo\<lparr>memo_sections := (memo_sections demo_memo)(''bio'' := None)\<rparr>))
        ''m1'' [])))
     ''m1'' ''bio''
   = section_after (fst (snd ?run)) ''m1'' ''bio''"
    by simp
  with st fin frame show ?thesis by blast
qed

lemma draft_only_valuation_changed:
  assumes "memo_store memo_id = Some memo"
    and "parse_ticker_changes instruction (existing_tickers_of (memo_sections memo ''valuation''))
           \<noteq> existing_tickers_of (memo_sections memo ''valuation'')"
    and "get_valuation_data (w_market w)
           (parse_ticker_changes instruction
              (existing_tickers_of (memo_sections memo ''valuation''))) = Inr result"
  shows "run_regeneration w ''valuation'' analyst instruction False memo_store memo_id
           current_content =
         ([RegenStart ''valuation'',
           RegenStep ''valuation''
             (''Pulling data for updated tickers: '' @ join '', ''
                (parse_ticker_changes instruction
                   (existing_tickers_of (memo_sections memo ''valuation'')))),
           RegenValuation
             (refreshed_valuation w result
                (parse_ticker_changes instruction
                   (existing_tickers_of (memo_sections memo ''valuation'')))),
           RegenComplete ''valuation''],
          memo_store(memo_id \<mapsto>
            memo\<lparr>memo_sections := (memo_sections memo)(''valuation'' \<mapsto>
              refreshed_valuation w result
                (parse_ticker_changes instruction
                   (existing_tickers_of (memo_sections memo ''valuation''))))\<rparr>),
          [CallValuation
             (parse_ticker_changes instruction
                (existing_tickers_of (memo_sections memo ''valuation'')))])"
  unfolding run_regeneration_def assms(1) option.case
  using assms(2)
  by (simp add: draft_only_def draft_only_valuation_def Let_def assms(3)
      valuation_returned(1) [OF assms(3)] store_section_def put_section_def)

lemma draft_only_valuation_failed:
  assumes "memo_store memo_id = Some memo"
    and "parse_ticker_changes instruction (existing_tickers_of (memo_sections memo ''valuation''))
           \<noteq> existing_tickers_of (memo_sections memo ''valuation'')"
    and "get_valuation_data (w_market w)
           (parse_ticker_changes instruction
              (existing_tickers_of (memo_sections memo ''valuation''))) = Inl e"
  shows "run_regeneration w ''valuation'' analyst instruction False memo_store memo_id
           current_content =
         ([RegenStart ''valuation'',
           RegenStep ''valuation''
             (''Pulling data for updated tickers: '' @ join '', ''
                (parse_ticker_changes instruction
                   (existing_tickers_of (memo_sections memo ''valuation'')))),
           RegenError ''valuation'' ''Failed to pull valuation data''],
          memo_store,
          [CallValuation
             (parse_ticker_changes instruction
                (existing_tickers_of (memo_sections memo ''valuation'')))])"
  unfolding run_regeneration_def assms(1) option.case
  using assms(2)
  by (simp add: draft_only_def draft_only_valuation_def Let_def assms(3))

lemma draft_only_valuation_same:
  assumes "memo_store memo_id = Some memo"
    and "parse_ticker_changes instruction (existing_tickers_of (memo_sections memo ''valuation''))
           = existing_tickers_of (memo_sections memo ''valuation'')"
  shows "run_regeneration w ''valuation'' analyst instruction False memo_store memo_id
           current_content =
         ((case memo_sections memo ''valuation'' of
             None \<Rightarrow> [RegenStart ''valuation'',
                       RegenError ''valuation'' ''No existing valuation data'']
           | Some existing \<Rightarrow>
               (if tickers_of (Some existing) \<noteq> [] then
                  [RegenStart ''valuation'', RegenValuation existing, RegenComplete ''valuation'']
                else [RegenStart ''valuation'',
                      RegenError ''valuation'' ''No existing valuation data''])),
          memo_store, [])"
  unfolding run_regeneration_def assms(1) option.case
  using assms(2)
  by (simp add: draft_only_def draft_only_valuation_def Let_def split: option.splits)

text \<open>
  Claim C8, as amended. In a draft-only regeneration of the valuation section of a
  stored memo, the ticker list parsed from the instruction is compared with the stored
  ticker list as a list (the default list when no ticker data is stored). When the two
  lists are equal, no leaf is called and the store is unchanged, the stored record
  going out in \<^verbatim>\<open>regen_valuation\<close> when it holds ticker data and a \<^verbatim>\<open>regen_error\<close>
  otherwise. When they differ, one market-data pull for the new list is made. If the
  pull returns, its result has status success and an entry for each new ticker, its
  record replaces the stored one and the run ends with \<^verbatim>\<open>regen_complete\<close>; if the pull
  raises, a \<^verbatim>\<open>regen_error\<close> goes out and the store is unchanged.
\<close>

theorem draft_only_valuation_pulls_when_list_changes:
  assumes "memo_store memo_id = Some memo"
    and "existing_tickers = existing_tickers_of (memo_sections memo ''valuation'')"
    and "new_tickers = parse_ticker_changes instruction existing_tickers"
  shows "(new_tickers = existing_tickers \<longrightarrow>
            run_regeneration w ''valuation'' analyst instruction False memo_store memo_id
              current_content =
            ((case memo_sections memo ''valuation'' of
                None \<Rightarrow> [RegenStart ''valuation'',
                          RegenError ''valuation'' ''No existing valuation data'']
              | Some existing \<Rightarrow>
                  (if tickers_of (Some existing) \<noteq> [] then
                     [RegenStart ''valuation'', RegenValuation existing,
                      RegenComplete ''valuation'']
                   else [RegenStart ''valuation'',
                         RegenError ''valuation'' ''No existing valuation data''])),
             memo_store, [])) \<and>
         (new_tickers \<noteq> existing_tickers \<longrightarrow>
            snd (snd (run_regeneration w ''valuation'' analyst instruction False memo_store
                        memo_id current_content))
              = [CallValuation new_tickers] \<and>
            (case get_valuation_data (w_market w) new_tickers of
               Inr result \<Rightarrow>
                 run_regeneration w ''valuation'' analyst instruction False memo_store memo_id
                   current_content =
                 ([RegenStart ''valuation'',
                   RegenStep ''valuation''
                     (''Pulling data for updated tickers: '' @ join '', '' new_tickers),
                   RegenValuation (refreshed_valuation w result new_tickers),
                   RegenComplete ''valuation''],
                  memo_store(memo_id \<mapsto>
                    memo\<lparr>memo_sections := (memo_sections memo)(''valuation'' \<mapsto>
                      refreshed_valuation w result new_tickers)\<rparr>),
                  [CallValuation new_tickers]) \<and>
                 vd_status result = ''success'' \<and>
                 set (map fst (vd_tickers result)) = set new_tickers
             | Inl e \<Rightarrow>
                 run_regeneration w ''valuation'' analyst instruction False memo_store memo_id
                   current_content =
                 ([RegenStart ''valuation'',
                   RegenStep ''valuation''
                     (''Pulling data for updated tickers: '' @ join '', '' new_tickers),
                   RegenError ''valuation'' ''Failed to pull valuation data''],
                  memo_store, [CallValuation new_tickers])))"
proof (intro conjI impI)
  assume "new_tickers = existing_tickers"
  with assms(2,3) have "parse_ticker_changes instruction
      (existing_tickers_of (memo_sections memo ''valuation''))
    = existing_tickers_of (memo_sections memo ''valuation'')" by simp
  from draft_only_valuation_same
    [where memo_store = memo_store and memo_id = memo_id and memo = memo, OF assms(1) this]
  show "run_regeneration w ''valuation'' analyst instruction False memo_store memo_id
              current_content =
            ((case memo_sections memo ''valuation'' of
                None \<Rightarrow> [RegenStart ''valuation'',
                          RegenError ''valuation'' ''No existing valuation data'']
              | Some existing \<Rightarrow>
                  (if tickers_of (Some existing) \<noteq> [] then
                     [RegenStart ''valuation'', RegenValuation existing,
                      RegenComplete ''valuation'']
                   else [RegenStart ''valuation'',
                         RegenError ''valuation'' ''No existing valuation data''])),
             memo_store, [])" .
next
  assume "new_tickers \<noteq> existing_tickers"
  with assms(2,3) have ne: "parse_ticker_changes instruction
      (existing_tickers_of (memo_sections memo ''valuation''))
    \<noteq> existing_tickers_of (memo_sections memo ''valuation'')" by simp
  have new: "parse_ticker_changes instruction
      (existing_tickers_of (memo_sections memo ''valuation'')) = new_tickers"
    using assms(2,3) by simp
  show "snd (snd (run_regeneration w ''valuation'' analyst instruction False memo_store
                    memo_id current_content))
          = [CallValuation new_tickers]"
  proof (cases "get_valuation_data (w_market w) new_tickers")
    case (Inl e)
    from draft_only_valuation_failed
      [where memo_store = memo_store and memo_id = memo_id and memo = memo and w = w
         and analyst = analyst and current_content = current_content and e = e,
       OF assms(1) ne Inl [folded new]]
    show ?thesis unfolding new by simp
  next
    case (Inr result)
    from draft_only_valuation_changed
      [where memo_store = memo_store and memo_id = memo_id and memo = memo and w = w
         and analyst = analyst and current_content = current_content and result = result,
       OF assms(1) ne Inr [folded new]]
    show ?thesis unfolding new by simp
  qed
  show "case get_valuation_data (w_market w) new_tickers of
          Inr result \<Rightarrow>
            run_regeneration w ''valuation'' analyst instruction False memo_store memo_id
              current_content =
            ([RegenStart ''valuation'',
              RegenStep ''valuation''
                (''Pulling data for updated tickers: '' @ join '', '' new_tickers),
              RegenValuation (refreshed_valuation w result new_tickers),
              RegenComplete ''valuation''],
             memo_store(memo_id \<mapsto>
               memo\<lparr>memo_sections := (memo_sections memo)(''valuation'' \<mapsto>
                 refreshed_valuation w result new_tickers)\<rparr>),
             [CallValuation new_tickers]) \<and>
            vd_status result = ''success'' \<and>
            set (map fst (vd_tickers result)) = set new_tickers
        | Inl e \<Rightarrow>
            run_regeneration w ''valuation'' analyst instruction False memo_store memo_id
              current_content =
            ([RegenStart ''valuation'',
              RegenStep ''valuation''
                (''Pulling data for updated tickers: '' @ join '', '' new_tickers),
              RegenError ''valuation'' ''Failed to pull valuation data''],
             memo_store, [CallValuation new_tickers])"
  proof (cases "get_valuation_data (w_market w) new_tickers")
    case (Inl e)
    from draft_only_valuation_failed
      [where memo_store = memo_store and memo_id = memo_id and memo = memo and w = w
         and analyst = analyst and current_content = current_content and e = e,
       OF assms(1) ne Inl [folded new]]
    show ?thesis unfolding Inl sum.case new .
  next
    case (Inr result)
    from draft_only_valuation_changed
      [where memo_store = memo_store and memo_id = memo_id and memo = memo and w = w
         and analyst = analyst and current_content = current_content and result = result,
       OF assms(1) ne Inr [folded new]]
    have run: "run_regeneration w ''valuation'' analyst instruction False memo_store memo_id
              current_content =
            ([RegenStart ''valuation'',
              RegenStep ''valuation''
                (''Pulling data for updated tickers: '' @ join '', '' new_tickers),
              RegenValuation (refreshed_valuation w result new_tickers),
              RegenComplete ''valuation''],
             memo_store(memo_id \<mapsto>
               memo\<lparr>memo_sections := (memo_sections memo)(''valuation'' \<mapsto>
                 refreshed_valuation w result new_tickers)\<rparr>),
             [CallValuation new_tickers])"
      unfolding new .
    from run valuation_returned(1) [OF Inr] valuation_returned_keys [OF Inr]
    show ?thesis unfolding Inr sum.case by (intro conjI)
  qed
qed

lemma demo_existing:
  "existing_tickers_of (memo_sections demo_memo ''valuation'') = [''MS'', ''GS'', ''JPM'']"
  by (simp add: demo_memo_def demo_pull_def existing_tickers_of_def)

lemma demo_valuation:
  "memo_sections demo_memo ''valuation''
     = Some (ValuationTable demo_pull [] (confidence_of ''medium'' ''1 of 3 tickers failed'') None)"
  by (simp add: demo_memo_def)

lemma demo_pull:
  "get_valuation_data demo_market [''MS'', ''GS'', ''JPM''] = Inr demo_pull"
  by (simp add: get_valuation_data_def fetch_ticker_def null_row_def METRICS_def metric_of_def
      demo_market_def demo_pull_def median_quote_def sorted_quotes_def quantize_quote_def Let_def)

lemma demo_pull_four:
  "\<exists>result. get_valuation_data demo_market [''MS'', ''BLK'', ''JPM'', ''HOOD''] = Inr result"
  by (simp add: get_valuation_data_def fetch_ticker_def null_row_def METRICS_def metric_of_def
      demo_market_def Let_def)

lemma demo_pull_reordered:
  "\<exists>result. get_valuation_data demo_market [''MS'', ''JPM'', ''GS''] = Inr result"
  by (simp add: get_valuation_data_def fetch_ticker_def null_row_def METRICS_def metric_of_def
      demo_market_def median_quote_def sorted_quotes_def quantize_quote_def Let_def)

lemma bac_down_pull:
  "get_valuation_data pe_market_bac_down [''MS'', ''GS'', ''JPM'', ''BAC'']
     = Inl ''[<class 'decimal.InvalidOperation'>]''"
  by (simp add: get_valuation_data_def fetch_ticker_def null_row_def METRICS_def metric_of_def
      pe_market_def pe_market_bac_down_def demo_market_def median_quote_def sorted_quotes_def
      quantize_quote_def Let_def)

theorem draft_only_valuation_pulls_when_list_changes_witness:
  "demo_store ''m1'' = Some demo_memo \<and>
   existing_tickers_of (memo_sections demo_memo ''valuation'') = [''MS'', ''GS'', ''JPM''] \<and>
   parse_ticker_changes ''Replace GS with BLK and add HOOD'' [''MS'', ''GS'', ''JPM'']
     = [''MS'', ''BLK'', ''JPM'', ''HOOD''] \<and>
   snd (snd (run_regeneration demo_world ''valuation'' ''Mike Mayo''
               ''Replace GS with BLK and add HOOD'' False demo_store ''m1'' []))
     = [CallValuation [''MS'', ''BLK'', ''JPM'', ''HOOD'']] \<and>
   (\<exists>result.
      get_valuation_data (w_market demo_world) [''MS'', ''BLK'', ''JPM'', ''HOOD''] = Inr result \<and>
      set (map fst (vd_tickers result)) = set [''MS'', ''BLK'', ''JPM'', ''HOOD''] \<and>
      run_regeneration demo_world ''valuation'' ''Mike Mayo''
        ''Replace GS with BLK and add HOOD'' False demo_store ''m1'' []
        = ([RegenStart ''valuation'',
            RegenStep ''valuation'' ''Pulling data for updated tickers: MS, BLK, JPM, HOOD'',
            RegenValuation
              (refreshed_valuation demo_world result [''MS'', ''BLK'', ''JPM'', ''HOOD'']),
            RegenComplete ''valuation''],
           demo_store(''m1'' \<mapsto>
             demo_memo\<lparr>memo_sections := (memo_sections demo_memo)(''valuation'' \<mapsto>
               refreshed_valuation demo_world result [''MS'', ''BLK'', ''JPM'', ''HOOD''])\<rparr>),
           [CallValuation [''MS'', ''BLK'', ''JPM'', ''HOOD'']])) \<and>
   parse_ticker_changes ''add BAC'' [''MS'', ''GS'', ''JPM''] = [''MS'', ''GS'', ''JPM'', ''BAC''] \<and>
   get_valuation_data pe_market_bac_down [''MS'', ''GS'', ''JPM'', ''BAC'']
     = Inl ''[<class 'decimal.InvalidOperation'>]'' \<and>
   run_regeneration (demo_world\<lparr>w_market := pe_market_bac_down\<rparr>) ''valuation'' ''Mike Mayo''
     ''add BAC'' False demo_store ''m1'' []
     = ([RegenStart ''valuation'',
         RegenStep ''valuation'' ''Pulling data for updated tickers: MS, GS, JPM, BAC'',
         RegenError ''valuation'' ''Failed to pull valuation data''],
        demo_store, [CallValuation [''MS'', ''GS'', ''JPM'', ''BAC'']]) \<and>
   parse_ticker_changes ''Remove MS'' [''MS'', ''GS'', ''JPM''] = [''MS'', ''GS'', ''JPM''] \<and>
   run_regeneration demo_world ''valuation'' ''Mike Mayo'' ''Remove MS'' False demo_store ''m1'' []
     = ([RegenStart ''valuation'',
         RegenValuation
           (ValuationTable demo_pull [] (confidence_of ''medium'' ''1 of 3 tickers failed'') None),
         RegenComplete ''valuation''],
        demo_store, [])"
proof -
  have st: "demo_store ''m1'' = Some demo_memo" by (simp add: demo_store_def)
  have ex: "[''MS'', ''GS'', ''JPM''] = existing_tickers_of (memo_sections demo_memo ''valuation'')"
    by (simp add: demo_existing)
  have p1: "parse_ticker_changes ''Replace GS with BLK and add HOOD'' [''MS'', ''GS'', ''JPM'']
     = [''MS'', ''BLK'', ''JPM'', ''HOOD'']"
    by code_simp
  have p2: "parse_ticker_changes ''Remove MS'' [''MS'', ''GS'', ''JPM''] = [''MS'', ''GS'', ''JPM'']"
    by code_simp
  have p3: "parse_ticker_changes ''add BAC'' [''MS'', ''GS'', ''JPM'']
     = [''MS'', ''GS'', ''JPM'', ''BAC'']"
    by code_simp
  have ne: "[''MS'', ''BLK'', ''JPM'', ''HOOD''] \<noteq> [''MS'', ''GS'', ''JPM'']" by simp
  have ne3: "[''MS'', ''GS'', ''JPM'', ''BAC''] \<noteq> [''MS'', ''GS'', ''JPM'']" by simp
  have j1: "join '', '' [''MS'', ''BLK'', ''JPM'', ''HOOD''] = ''MS, BLK, JPM, HOOD''"
    by code_simp
  have j3: "join '', '' [''MS'', ''GS'', ''JPM'', ''BAC''] = ''MS, GS, JPM, BAC''"
    by code_simp
  have market: "w_market demo_world = demo_market" by (simp add: demo_world_def)
  from demo_pull_four obtain result where
    pull: "get_valuation_data (w_market demo_world) [''MS'', ''BLK'', ''JPM'', ''HOOD''] = Inr result"
    unfolding market by blast
  note changed = draft_only_valuation_pulls_when_list_changes
    [where memo_store = demo_store and memo_id = "''m1''" and memo = demo_memo
       and w = demo_world and analyst = "''Mike Mayo''" and current_content = "[]"
       and instruction = "''Replace GS with BLK and add HOOD''"
       and existing_tickers = "[''MS'', ''GS'', ''JPM'']"
       and new_tickers = "[''MS'', ''BLK'', ''JPM'', ''HOOD'']",
     OF st ex p1 [symmetric], THEN conjunct2, rule_format, OF ne]
  from changed have calls: "snd (snd (run_regeneration demo_world ''valuation'' ''Mike Mayo''
               ''Replace GS with BLK and add HOOD'' False demo_store ''m1'' []))
     = [CallValuation [''MS'', ''BLK'', ''JPM'', ''HOOD'']]"
    by (rule conjunct1)
  from changed [THEN conjunct2, unfolded pull sum.case]
  have replaced: "set (map fst (vd_tickers result)) = set [''MS'', ''BLK'', ''JPM'', ''HOOD''] \<and>
      run_regeneration demo_world ''valuation'' ''Mike Mayo''
        ''Replace GS with BLK and add HOOD'' False demo_store ''m1'' []
        = ([RegenStart ''valuation'',
            RegenStep ''valuation'' ''Pulling data for updated tickers: MS, BLK, JPM, HOOD'',
            RegenValuation
              (refreshed_valuation demo_world result [''MS'', ''BLK'', ''JPM'', ''HOOD'']),
            RegenComplete ''valuation''],
           demo_store(''m1'' \<mapsto>
             demo_memo\<lparr>memo_sections := (memo_sections demo_memo)(''valuation'' \<mapsto>
               refreshed_valuation demo_world result [''MS'', ''BLK'', ''JPM'', ''HOOD''])\<rparr>),
           [CallValuation [''MS'', ''BLK'', ''JPM'', ''HOOD'']])"
    unfolding j1 by (simp only: append.simps simp_thms)
  from pull replaced have returned: "\<exists>result.
      get_valuation_data (w_market demo_world) [''MS'', ''BLK'', ''JPM'', ''HOOD''] = Inr result \<and>
      set (map fst (vd_tickers result)) = set [''MS'', ''BLK'', ''JPM'', ''HOOD''] \<and>
      run_regeneration demo_world ''valuation'' ''Mike Mayo''
        ''Replace GS with BLK and add HOOD'' False demo_store ''m1'' []
        = ([RegenStart ''valuation'',
            RegenStep ''valuation'' ''Pulling data for updated tickers: MS, BLK, JPM, HOOD'',
            RegenValuation
              (refreshed_valuation demo_world result [''MS'', ''BLK'', ''JPM'', ''HOOD'']),
            RegenComplete ''valuation''],
           demo_store(''m1'' \<mapsto>
             demo_memo\<lparr>memo_sections := (memo_sections demo_memo)(''valuation'' \<mapsto>
               refreshed_valuation demo_world result [''MS'', ''BLK'', ''JPM'', ''HOOD''])\<rparr>),
           [CallValuation [''MS'', ''BLK'', ''JPM'', ''HOOD'']])"
    by blast
  have down: "get_valuation_data (w_market (demo_world\<lparr>w_market := pe_market_bac_down\<rparr>))
      [''MS'', ''GS'', ''JPM'', ''BAC''] = Inl ''[<class 'decimal.InvalidOperation'>]''"
    by (simp add: bac_down_pull)
  note raised = draft_only_valuation_pulls_when_list_changes
    [where memo_store = demo_store and memo_id = "''m1''" and memo = demo_memo
       and w = "demo_world\<lparr>w_market := pe_market_bac_down\<rparr>"
       and analyst = "''Mike Mayo''" and current_content = "[]"
       and instruction = "''add BAC''"
       and existing_tickers = "[''MS'', ''GS'', ''JPM'']"
       and new_tickers = "[''MS'', ''GS'', ''JPM'', ''BAC'']",
     OF st ex p3 [symmetric], THEN conjunct2, rule_format, OF ne3, THEN conjunct2,
     unfolded down sum.case j3]
  have failed: "run_regeneration (demo_world\<lparr>w_market := pe_market_bac_down\<rparr>) ''valuation''
      ''Mike Mayo'' ''add BAC'' False demo_store ''m1'' []
     = ([RegenStart ''valuation'',
         RegenStep ''valuation'' ''Pulling data for updated tickers: MS, GS, JPM, BAC'',
         RegenError ''valuation'' ''Failed to pull valuation data''],
        demo_store, [CallValuation [''MS'', ''GS'', ''JPM'', ''BAC'']])"
    using raised by (simp only: append.simps)
  have held: "tickers_of (memo_sections demo_memo ''valuation'') \<noteq> []"
    by (simp add: demo_valuation demo_pull_def)
  note same = draft_only_valuation_pulls_when_list_changes
    [where memo_store = demo_store and memo_id = "''m1''" and memo = demo_memo
       and w = demo_world and analyst = "''Mike Mayo''" and current_content = "[]"
       and instruction = "''Remove MS''"
       and existing_tickers = "[''MS'', ''GS'', ''JPM'']"
       and new_tickers = "[''MS'', ''GS'', ''JPM'']",
     OF st ex p2 [symmetric], THEN conjunct1, rule_format, OF refl]
  have kept: "run_regeneration demo_world ''valuation'' ''Mike Mayo'' ''Remove MS'' False
      demo_store ''m1'' []
     = ([RegenStart ''valuation'',
         RegenValuation
           (ValuationTable demo_pull [] (confidence_of ''medium'' ''1 of 3 tickers failed'') None),
         RegenComplete ''valuation''],
        demo_store, [])"
    using held unfolding same by (simp add: demo_valuation)
  from st demo_existing p1 calls returned p3 bac_down_pull failed p2 kept show ?thesis by blast
qed

lemma reorder_parse:
  "parse_ticker_changes ''replace GS with X, replace JPM with GS, replace X with JPM''
     [''MS'', ''GS'', ''JPM''] = [''MS'', ''JPM'', ''GS'']"
  by code_simp

text \<open>
  The claim as first stated compares symbol sets. An instruction that only reorders the
  stored symbols leaves the set as it was, and the code pulls fresh data and, the pull
  returning, replaces the stored record all the same.
\<close>

theorem draft_only_valuation_counterexample:
  "existing_tickers_of (section_after demo_store ''m1'' ''valuation'') = [''MS'', ''GS'', ''JPM''] \<and>
   parse_ticker_changes ''replace GS with X, replace JPM with GS, replace X with JPM''
     [''MS'', ''GS'', ''JPM''] = [''MS'', ''JPM'', ''GS''] \<and>
   set [''MS'', ''JPM'', ''GS''] = set [''MS'', ''GS'', ''JPM''] \<and>
   snd (snd (run_regeneration demo_world ''valuation'' ''Mike Mayo''
               ''replace GS with X, replace JPM with GS, replace X with JPM'' False
               demo_store ''m1'' []))
     = [CallValuation [''MS'', ''JPM'', ''GS'']] \<and>
   section_after
     (fst (snd (run_regeneration demo_world ''valuation'' ''Mike Mayo''
                  ''replace GS with X, replace JPM with GS, replace X with JPM'' False
                  demo_store ''m1'' [])))
     ''m1'' ''valuation''
     \<noteq> section_after demo_store ''m1'' ''valuation''"
proof -
  have st: "demo_store ''m1'' = Some demo_memo" by (simp add: demo_store_def)
  have ex: "existing_tickers_of (section_after demo_store ''m1'' ''valuation'')
      = [''MS'', ''GS'', ''JPM'']"
    by (simp add: section_after_def st demo_existing)
  have changed: "parse_ticker_changes
      ''replace GS with X, replace JPM with GS, replace X with JPM''
      (existing_tickers_of (memo_sections demo_memo ''valuation''))
    \<noteq> existing_tickers_of (memo_sections demo_memo ''valuation'')"
    by (simp add: demo_existing reorder_parse)
  have same_set: "set [''MS'', ''JPM'', ''GS''] = set [''MS'', ''GS'', ''JPM'']"
    by auto
  have market: "w_market demo_world = demo_market" by (simp add: demo_world_def)
  from demo_pull_reordered obtain result where
    "get_valuation_data (w_market demo_world) [''MS'', ''JPM'', ''GS''] = Inr result"
    unfolding market by blast
  then have pull: "get_valuation_data (w_market demo_world)
      (parse_ticker_changes ''replace GS with X, replace JPM with GS, replace X with JPM''
         (existing_tickers_of (memo_sections demo_memo ''valuation''))) = Inr result"
    by (simp add: demo_existing reorder_parse)
  note run = draft_only_valuation_changed
    [where memo_store = demo_store and memo_id = "''m1''" and memo = demo_memo
       and w = demo_world and analyst = "''Mike Mayo''" and current_content = "[]",
     OF st changed pull, unfolded demo_existing reorder_parse]
  have calls: "snd (snd (run_regeneration demo_world ''valuation'' ''Mike Mayo''
               ''replace GS with X, replace JPM with GS, replace X with JPM'' False
               demo_store ''m1'' []))
     = [CallValuation [''MS'', ''JPM'', ''GS'']]"
    by (simp add: run)
  have replaced: "section_after
     (fst (snd (run_regeneration demo_world ''valuation'' ''Mike Mayo''
                  ''replace GS with X, replace JPM with GS, replace X with JPM'' False
                  demo_store ''m1'' [])))
     ''m1'' ''valuation''
     \<noteq> section_after demo_store ''m1'' ''valuation''"
  proof -
    have after: "section_after
        (fst (snd (run_regeneration demo_world ''valuation'' ''Mike Mayo''
                  ''replace GS with X, replace JPM with GS, replace X with JPM'' False
                  demo_store ''m1'' [])))
        ''m1'' ''valuation''
      = Some (refreshed_valuation demo_world result [''MS'', ''JPM'', ''GS''])"
      by (simp add: run section_after_def)
    have before: "section_after demo_store ''m1'' ''valuation''
      = Some (ValuationTable demo_pull [] (confidence_of ''medium'' ''1 of 3 tickers failed'')
                None)"
      by (simp add: section_after_def st demo_memo_def)
    show ?thesis
      unfolding after before refreshed_valuation_def Let_def
      by (simp only: option.inject section_record.inject option.distinct simp_thms)
  qed
  from ex reorder_parse same_set calls replaced show ?thesis by blast
qed

end
